theory Spec2Isabelle
  imports Main "HOL-Library.AList"
begin

section \<open>The platform boundary: outbound HTTP requests\<close>

text \<open>
  Both tools call the platform's \<open>fetch\<close>. The model passes the network in as a function
  from the request that was built to what came back: a response, or the message of the
  exception that \<open>fetch\<close> threw. Every function of the model also returns the list of
  the requests it handed to \<open>fetch\<close>, so that "no outbound request" is the statement that
  this list is empty.

  JavaScript numbers that hold milliseconds, status codes and counters are modelled as
  \<open>int\<close> and \<open>nat\<close>; strings are byte strings.
\<close>

datatype http_method = GET | POST | PUT | DELETE | PATCH

fun method_string :: "http_method \<Rightarrow> string" where
  "method_string GET = ''GET''"
| "method_string POST = ''POST''"
| "method_string PUT = ''PUT''"
| "method_string DELETE = ''DELETE''"
| "method_string PATCH = ''PATCH''"

record fetch_request =
  fr_url :: string
  fr_method :: http_method
  fr_headers :: "(string \<times> string) list"
  fr_body :: "string option"
  fr_timeout :: int

text \<open>
  A response as the tools read it: \<open>response.status\<close>, \<open>response.statusText\<close>, the header
  list (names in lower case, as the platform's \<open>Headers\<close> object keeps them), and what reading
  the body gives: \<open>rsp_json\<close> is \<open>JSON.stringify(await response.json(), null, 2)\<close> and
  \<open>rsp_text\<close> is \<open>await response.text()\<close>, each \<open>None\<close> when the read throws.
\<close>

record http_response =
  rsp_status :: int
  rsp_statusText :: string
  rsp_headers :: "(string \<times> string) list"
  rsp_json :: "string option"
  rsp_text :: "string option"

datatype fetch_outcome = Responded http_response | Threw string

type_synonym network = "fetch_request \<Rightarrow> fetch_outcome"

text \<open>\<open>response.ok\<close>: the status is in 200..299.\<close>

definition response_ok :: "http_response \<Rightarrow> bool" where
  "response_ok r = (200 \<le> rsp_status r \<and> rsp_status r \<le> 299)"

section \<open>health-check-tool.ts\<close>

datatype health_status = UP | DOWN

text \<open>The module-level \<open>healthCache\<close> object: one cell, all three fields initially null.\<close>

record healthCache =
  hc_status :: "health_status option"
  hc_timestamp :: "int option"
  hc_lastError :: "string option"

definition healthCache_initial :: healthCache where
  "healthCache_initial = \<lparr>hc_status = None, hc_timestamp = None, hc_lastError = None\<rparr>"

record health_context =
  hx_targetUrl :: string
  hx_cacheTTL :: int

text \<open>
  The tool's result. \<open>hr_timestamp\<close> is the epoch time that the source renders with
  \<open>toISOString\<close>; the optional fields are \<open>None\<close> where the returned object has no such key.
\<close>

record health_result =
  hr_status :: health_status
  hr_cached :: bool
  hr_timestamp :: int
  hr_cacheAge :: "int option"
  hr_httpStatus :: "int option"
  hr_statusChanged :: "bool option"
  hr_error :: "string option"

text \<open>\<open>Math.round(ms / 1000)\<close> on an integer number of milliseconds (halves round up).\<close>

definition round_seconds :: "int \<Rightarrow> int" where
  "round_seconds ms = (ms + 500) div 1000"

text \<open>
  \<open>healthCache.timestamp ? now - healthCache.timestamp : Infinity\<close>: \<open>None\<close> stands for
  \<open>Infinity\<close>; a null timestamp and the timestamp 0 are both falsy.
\<close>

definition health_cacheAge :: "healthCache \<Rightarrow> int \<Rightarrow> int option" where
  "health_cacheAge hc now =
     (case hc_timestamp hc of
        None \<Rightarrow> None
      | Some t \<Rightarrow> if t = 0 then None else Some (now - t))"

definition health_isCacheFresh :: "healthCache \<Rightarrow> int \<Rightarrow> int \<Rightarrow> bool" where
  "health_isCacheFresh hc now cacheTTL =
     (case health_cacheAge hc now of None \<Rightarrow> False | Some age \<Rightarrow> age < cacheTTL)"

definition health_request :: "string \<Rightarrow> fetch_request" where
  "health_request targetUrl =
     \<lparr>fr_url = targetUrl, fr_method = GET,
      fr_headers = [(''User-Agent'', ''ServicePulse/1.0'')],
      fr_body = None, fr_timeout = 10000\<rparr>"

text \<open>
  \<open>healthCheckTool.execute\<close>: the result, the cache cell afterwards and the requests sent.
  The first branch is \<open>isCacheFresh && healthCache.status !== null\<close>; a fresh cell has a
  timestamp, so the \<open>None\<close> case of \<open>hr_timestamp\<close> there is never taken.
\<close>

definition health_execute ::
  "network \<Rightarrow> int \<Rightarrow> health_context \<Rightarrow> healthCache
     \<Rightarrow> health_result \<times> healthCache \<times> fetch_request list" where
  "health_execute fetch now ctx hc =
     (case (if health_isCacheFresh hc now (hx_cacheTTL ctx) then hc_status hc else None) of
        Some st \<Rightarrow>
          (\<lparr>hr_status = st, hr_cached = True,
            hr_timestamp = (case hc_timestamp hc of Some t \<Rightarrow> t | None \<Rightarrow> 0),
            hr_cacheAge = map_option round_seconds (health_cacheAge hc now),
            hr_httpStatus = None, hr_statusChanged = None, hr_error = None\<rparr>,
           hc, [])
      | None \<Rightarrow>
          (let req = health_request (hx_targetUrl ctx) in
           case fetch req of
             Responded response \<Rightarrow>
               (let isUp = response_ok response;
                    newStatus = (if isUp then UP else DOWN);
                    statusChanged = (hc_status hc \<noteq> None \<and> hc_status hc \<noteq> Some newStatus)
                in (\<lparr>hr_status = newStatus, hr_cached = False, hr_timestamp = now,
                     hr_cacheAge = None, hr_httpStatus = Some (rsp_status response),
                     hr_statusChanged = Some statusChanged, hr_error = None\<rparr>,
                    \<lparr>hc_status = Some newStatus, hc_timestamp = Some now, hc_lastError = None\<rparr>,
                    [req]))
           | Threw message \<Rightarrow>
               (let statusChanged = (hc_status hc \<noteq> Some DOWN)
                in (\<lparr>hr_status = DOWN, hr_cached = False, hr_timestamp = now,
                     hr_cacheAge = None, hr_httpStatus = None,
                     hr_statusChanged = Some statusChanged, hr_error = Some message\<rparr>,
                    \<lparr>hc_status = Some DOWN, hc_timestamp = Some now,
                     hc_lastError = Some message\<rparr>,
                    [req]))))"

text \<open>A network on which every request fails, and one that answers by URL.\<close>

definition net_unreachable :: network where
  "net_unreachable req = Threw ''fetch failed''"

definition plain_response :: "int \<Rightarrow> http_response" where
  "plain_response code =
     \<lparr>rsp_status = code, rsp_statusText = [], rsp_headers = [],
      rsp_json = None, rsp_text = Some []\<rparr>"

definition net_a_up_b_down :: network where
  "net_a_up_b_down req =
     Responded (plain_response (if fr_url req = ''https://a.test/health'' then 200 else 503))"

section \<open>api-test-tools.ts\<close>

subsection \<open>Strings and objects of the platform\<close>

text \<open>\<open>String.prototype.includes\<close>: the argument occurs as a contiguous substring.\<close>

fun starts_with :: "string \<Rightarrow> string \<Rightarrow> bool" where
  "starts_with s [] = True"
| "starts_with [] (c # cs) = False"
| "starts_with (x # xs) (c # cs) = (x = c \<and> starts_with xs cs)"

fun str_includes :: "string \<Rightarrow> string \<Rightarrow> bool" where
  "str_includes [] t = (t = [])"
| "str_includes (x # xs) t = (starts_with (x # xs) t \<or> str_includes xs t)"

text \<open>\<open>toLowerCase\<close> on the ASCII letters.\<close>

definition to_lower_char :: "char \<Rightarrow> char" where
  "to_lower_char c =
     (let n = (of_char c :: nat) in if 65 \<le> n \<and> n \<le> 90 then char_of (n + 32) else c)"

definition toLowerCase :: "string \<Rightarrow> string" where
  "toLowerCase s = map to_lower_char s"

text \<open>\<open>response.headers.get(name)\<close>, and whether a header of that name is present.\<close>

definition headers_get :: "http_response \<Rightarrow> string \<Rightarrow> string option" where
  "headers_get r name = map_of (rsp_headers r) (toLowerCase name)"

definition headers_present :: "http_response \<Rightarrow> string \<Rightarrow> bool" where
  "headers_present r name = (headers_get r name \<noteq> None)"

text \<open>
  \<open>response.headers.has(name)\<close> first checks that the name is a header name, a non-empty
  HTTP token: printable ASCII without the separators \<open>"(),/:;<=>?@[\]{}\<close>. For any other
  name it throws a TypeError, whose message is that of Node's fetch implementation.
\<close>

definition header_separators :: "nat list" where
  "header_separators = [34, 40, 41, 44, 47, 58, 59, 60, 61, 62, 63, 64, 91, 92, 93, 123, 125]"

definition is_token_char :: "char \<Rightarrow> bool" where
  "is_token_char c =
     (let n = (of_char c :: nat) in 33 \<le> n \<and> n \<le> 126 \<and> n \<notin> set header_separators)"

definition header_name_valid :: "string \<Rightarrow> bool" where
  "header_name_valid name = (name \<noteq> [] \<and> list_all is_token_char name)"

definition invalid_header_name_message :: "string \<Rightarrow> string" where
  "invalid_header_name_message name = ''Headers.has: '' @ name @ '' is an invalid header name.''"

definition headers_has :: "http_response \<Rightarrow> string \<Rightarrow> string + bool" where
  "headers_has r name =
     (if header_name_valid name then Inr (headers_present r name)
      else Inl (invalid_header_name_message name))"

text \<open>
  Writing a list of properties into an object, one assignment after the other (object
  spread, and the \<open>forEach\<close> that copies the response headers).
\<close>

definition object_assign ::
  "(string \<times> string) list \<Rightarrow> (string \<times> string) list \<Rightarrow> (string \<times> string) list" where
  "object_assign base props = foldl (\<lambda>acc (k, v). AList.update k v acc) base props"

text \<open>
  \<open>JSON.stringify\<close> of a string: the text in double quotes, with the quote, the backslash
  and the control characters escaped.
\<close>

text \<open>The hexadecimal digit of a number below 16 (it is used on no other).\<close>

definition hex_digit :: "nat \<Rightarrow> char" where
  "hex_digit n = ''0123456789abcdef'' ! n"

definition json_escape_char :: "char \<Rightarrow> string" where
  "json_escape_char c =
     (let n = (of_char c :: nat) in
      if n = 34 then [CHR 0x5C, CHR 0x22]
      else if n = 92 then [CHR 0x5C, CHR 0x5C]
      else if n = 8 then CHR 0x5C # ''b''
      else if n = 12 then CHR 0x5C # ''f''
      else if n = 10 then CHR 0x5C # ''n''
      else if n = 13 then CHR 0x5C # ''r''
      else if n = 9 then CHR 0x5C # ''t''
      else if n < 32 then CHR 0x5C # ''u00'' @ [hex_digit (n div 16), hex_digit (n mod 16)]
      else [c])"

definition JSON_stringify_string :: "string \<Rightarrow> string" where
  "JSON_stringify_string s = CHR 0x22 # concat (map json_escape_char s) @ [CHR 0x22]"

subsection \<open>Input, output and cache of the tool\<close>

datatype response_type = RT_json | RT_text | RT_html | RT_xml

text \<open>
  The \<open>expectations\<close> object; an absent key is \<open>None\<close>. \<open>statusCodeRange\<close> is an array of
  exactly two numbers. \<open>bodySchema\<close> is declared in the schema and never read by \<open>execute\<close>.
\<close>

record expectations =
  ex_statusCode :: "int option"
  ex_statusCodeRange :: "(int \<times> int) option"
  ex_maxResponseTime :: "int option"
  ex_bodyContains :: "string list option"
  ex_bodyNotContains :: "string list option"
  ex_requiredHeaders :: "string list option"
  ex_responseType :: "response_type option"

record test_context =
  tc_url :: string
  tc_method :: http_method
  tc_headers :: "(string \<times> string) list option"
  tc_body :: "string option"
  tc_expectations :: "expectations option"
  tc_cacheTTL :: int
  tc_timeout :: int

text \<open>
  The \<open>expected\<close> field of the status slot holds the number of the exact rule, or the text
  \<open>min-max\<close> of the range rule.
\<close>

datatype expected_status = ExpectedCode int | ExpectedRange int int

record statusCode_outcome =
  sc_expected :: expected_status
  sc_actual :: int
  sc_passed :: bool

record responseTime_outcome =
  rt_maxAllowed :: int
  rt_actual :: int
  rt_passed :: bool

record responseType_outcome =
  ty_expected :: response_type
  ty_actual :: response_type
  ty_passed :: bool

text \<open>
  The \<open>validations\<close> object, initially \<open>{}\<close>. The three list slots pair each token with
  its \<open>found\<close>, \<open>notFound\<close> or \<open>present\<close> flag.
\<close>

record validations =
  va_statusCode :: "statusCode_outcome option"
  va_responseTime :: "responseTime_outcome option"
  va_bodyContains :: "(string \<times> bool) list option"
  va_bodyNotContains :: "(string \<times> bool) list option"
  va_headers :: "(string \<times> bool) list option"
  va_responseType :: "responseType_outcome option"

definition validations_empty :: validations where
  "validations_empty =
     \<lparr>va_statusCode = None, va_responseTime = None, va_bodyContains = None,
      va_bodyNotContains = None, va_headers = None, va_responseType = None\<rparr>"

datatype test_status = PASS | FAIL

record request_snapshot =
  rq_method :: http_method
  rq_url :: string
  rq_headers :: "(string \<times> string) list option"

record response_snapshot =
  rs_statusCode :: int
  rs_statusText :: string
  rs_headers :: "(string \<times> string) list"
  rs_body :: string
  rs_responseTime :: int

record test_result =
  tr_testStatus :: test_status
  tr_cached :: bool
  tr_timestamp :: int
  tr_request :: request_snapshot
  tr_response :: "response_snapshot option"
  tr_validations :: "validations option"
  tr_totalChecks :: nat
  tr_passedChecks :: nat
  tr_failedChecks :: nat
  tr_error :: "string option"

record cache_entry =
  ce_status :: test_status
  ce_timestamp :: int
  ce_responseTime :: int
  ce_result :: test_result

type_synonym testCache = "string \<rightharpoonup> cache_entry"

text \<open>The three readings of \<open>Date.now()\<close> in one call.\<close>

record clock =
  ck_now :: int
  ck_startTime :: int
  ck_endTime :: int

subsection \<open>The validation block\<close>

text \<open>
  The running state of the block: the \<open>validations\<close> object and the two counters
  \<open>totalChecks\<close> and \<open>passedChecks\<close>, both starting at 0.
\<close>

record vstate =
  vs_validations :: validations
  vs_totalChecks :: nat
  vs_passedChecks :: nat

definition vstate_initial :: vstate where
  "vstate_initial =
     \<lparr>vs_validations = validations_empty, vs_totalChecks = 0, vs_passedChecks = 0\<rparr>"

text \<open>One \<open>totalChecks++\<close> followed by \<open>if (passed) passedChecks++\<close>.\<close>

definition count_check :: "bool \<Rightarrow> vstate \<Rightarrow> vstate" where
  "count_check passed s =
     s\<lparr>vs_totalChecks := vs_totalChecks s + 1,
       vs_passedChecks := (if passed then vs_passedChecks s + 1 else vs_passedChecks s)\<rparr>"

text \<open>
  \<open>tokens.map(t => { totalChecks++; const r = test(t); if (r) passedChecks++; return {t, r} })\<close>:
  the list of outcomes and the state with both counters advanced.
\<close>

fun map_checks ::
  "(string \<Rightarrow> bool) \<Rightarrow> string list \<Rightarrow> vstate \<Rightarrow> (string \<times> bool) list \<times> vstate" where
  "map_checks test [] s = ([], s)"
| "map_checks test (t # ts) s =
     (let r = test t;
          (outs, s') = map_checks test ts (count_check r s)
      in ((t, r) # outs, s'))"

definition check_statusCode :: "http_response \<Rightarrow> expectations \<Rightarrow> vstate \<Rightarrow> vstate" where
  "check_statusCode response ex s =
     (case ex_statusCode ex of
        None \<Rightarrow> s
      | Some expected \<Rightarrow>
          (let passed = (rsp_status response = expected);
               s1 = count_check passed s
           in s1\<lparr>vs_validations := (vs_validations s1)
                  \<lparr>va_statusCode := Some \<lparr>sc_expected = ExpectedCode expected,
                      sc_actual = rsp_status response, sc_passed = passed\<rparr>\<rparr>\<rparr>))"

definition check_statusCodeRange :: "http_response \<Rightarrow> expectations \<Rightarrow> vstate \<Rightarrow> vstate" where
  "check_statusCodeRange response ex s =
     (case ex_statusCodeRange ex of
        None \<Rightarrow> s
      | Some (lo, hi) \<Rightarrow>
          (let passed = (rsp_status response \<ge> lo \<and> rsp_status response \<le> hi);
               s1 = count_check passed s
           in s1\<lparr>vs_validations := (vs_validations s1)
                  \<lparr>va_statusCode := Some \<lparr>sc_expected = ExpectedRange lo hi,
                      sc_actual = rsp_status response, sc_passed = passed\<rparr>\<rparr>\<rparr>))"

definition check_maxResponseTime :: "int \<Rightarrow> expectations \<Rightarrow> vstate \<Rightarrow> vstate" where
  "check_maxResponseTime responseTime ex s =
     (case ex_maxResponseTime ex of
        None \<Rightarrow> s
      | Some maxAllowed \<Rightarrow>
          (let passed = (responseTime \<le> maxAllowed);
               s1 = count_check passed s
           in s1\<lparr>vs_validations := (vs_validations s1)
                  \<lparr>va_responseTime := Some \<lparr>rt_maxAllowed = maxAllowed,
                      rt_actual = responseTime, rt_passed = passed\<rparr>\<rparr>\<rparr>))"

text \<open>
  \<open>if (expectations.bodyContains && responseBody)\<close>: the list is declared and the body
  string is not empty.
\<close>

definition check_bodyContains :: "string \<Rightarrow> expectations \<Rightarrow> vstate \<Rightarrow> vstate" where
  "check_bodyContains responseBody ex s =
     (case ex_bodyContains ex of
        None \<Rightarrow> s
      | Some tokens \<Rightarrow>
          if responseBody = [] then s
          else (let (outs, s1) = map_checks (\<lambda>t. str_includes responseBody t) tokens s
                in s1\<lparr>vs_validations := (vs_validations s1)\<lparr>va_bodyContains := Some outs\<rparr>\<rparr>))"

definition check_bodyNotContains :: "string \<Rightarrow> expectations \<Rightarrow> vstate \<Rightarrow> vstate" where
  "check_bodyNotContains responseBody ex s =
     (case ex_bodyNotContains ex of
        None \<Rightarrow> s
      | Some tokens \<Rightarrow>
          if responseBody = [] then s
          else (let (outs, s1) = map_checks (\<lambda>t. \<not> str_includes responseBody t) tokens s
                in s1\<lparr>vs_validations := (vs_validations s1)\<lparr>va_bodyNotContains := Some outs\<rparr>\<rparr>))"

text \<open>
  \<open>expectations.requiredHeaders.map(header => { totalChecks++; const present =
  response.headers.has(header.toLowerCase()); ... })\<close>: the names are looked up in order,
  and the first one that \<open>has\<close> rejects throws out of the whole \<open>try\<close> block (\<open>Inl\<close> its
  message); what was counted before is lost with the block's local variables.
\<close>

fun map_header_checks ::
  "http_response \<Rightarrow> string list \<Rightarrow> vstate \<Rightarrow> string + ((string \<times> bool) list \<times> vstate)" where
  "map_header_checks response [] s = Inr ([], s)"
| "map_header_checks response (h # hs) s =
     (case headers_has response (toLowerCase h) of
        Inl message \<Rightarrow> Inl message
      | Inr present \<Rightarrow>
          (case map_header_checks response hs (count_check present s) of
             Inl message \<Rightarrow> Inl message
           | Inr (outs, s') \<Rightarrow> Inr ((h, present) # outs, s')))"

definition check_requiredHeaders ::
  "http_response \<Rightarrow> expectations \<Rightarrow> vstate \<Rightarrow> string + vstate" where
  "check_requiredHeaders response ex s =
     (case ex_requiredHeaders ex of
        None \<Rightarrow> Inr s
      | Some names \<Rightarrow>
          (case map_header_checks response names s of
             Inl message \<Rightarrow> Inl message
           | Inr (outs, s1) \<Rightarrow>
               Inr (s1\<lparr>vs_validations := (vs_validations s1)\<lparr>va_headers := Some outs\<rparr>\<rparr>)))"

definition actualType :: "string \<Rightarrow> response_type" where
  "actualType contentType =
     (if str_includes contentType ''json'' then RT_json
      else if str_includes contentType ''html'' then RT_html
      else if str_includes contentType ''xml'' then RT_xml
      else RT_text)"

definition check_responseType :: "string \<Rightarrow> expectations \<Rightarrow> vstate \<Rightarrow> vstate" where
  "check_responseType contentType ex s =
     (case ex_responseType ex of
        None \<Rightarrow> s
      | Some expected \<Rightarrow>
          (let passed = (actualType contentType = expected);
               s1 = count_check passed s
           in s1\<lparr>vs_validations := (vs_validations s1)
                  \<lparr>va_responseType := Some \<lparr>ty_expected = expected,
                      ty_actual = actualType contentType, ty_passed = passed\<rparr>\<rparr>\<rparr>))"

text \<open>
  The body of \<open>if (expectations) { ... }\<close>, the seven rules in the order of the source.
  Only the required-headers rule can throw.
\<close>

definition run_expectations ::
  "http_response \<Rightarrow> string \<Rightarrow> string \<Rightarrow> int \<Rightarrow> expectations \<Rightarrow> vstate
     \<Rightarrow> string + vstate" where
  "run_expectations response contentType responseBody responseTime ex s =
     (case check_requiredHeaders response ex
             (check_bodyNotContains responseBody ex
               (check_bodyContains responseBody ex
                 (check_maxResponseTime responseTime ex
                   (check_statusCodeRange response ex
                     (check_statusCode response ex s))))) of
        Inl message \<Rightarrow> Inl message
      | Inr s6 \<Rightarrow> Inr (check_responseType contentType ex s6))"

text \<open>
  \<open>if (totalChecks === 0) { totalChecks = 1; passedChecks = response.ok ? 1 : 0 }\<close>.
\<close>

definition implicit_check :: "http_response \<Rightarrow> vstate \<Rightarrow> vstate" where
  "implicit_check response s =
     (if vs_totalChecks s = 0
      then s\<lparr>vs_totalChecks := 1,
             vs_passedChecks := (if response_ok response then 1 else 0)\<rparr>
      else s)"

text \<open>
  The whole block, lines 156 to 249: the rules if \<open>expectations\<close> is given, then the
  implicit check. \<open>Inl\<close> is the message of the exception thrown out of the block.
\<close>

definition run_validations ::
  "http_response \<Rightarrow> string \<Rightarrow> string \<Rightarrow> int \<Rightarrow> expectations option
     \<Rightarrow> string + vstate" where
  "run_validations response contentType responseBody responseTime exo =
     (case (case exo of
              None \<Rightarrow> Inr vstate_initial
            | Some ex \<Rightarrow>
                run_expectations response contentType responseBody responseTime ex
                  vstate_initial) of
        Inl message \<Rightarrow> Inl message
      | Inr s \<Rightarrow> Inr (implicit_check response s))"

definition testStatus_of :: "vstate \<Rightarrow> test_status" where
  "testStatus_of s = (if vs_passedChecks s = vs_totalChecks s then PASS else FAIL)"

subsection \<open>The validation block when no header name is rejected\<close>

text \<open>
  Every required header name is a header name, so that no lookup throws.
\<close>

definition required_headers_valid :: "expectations option \<Rightarrow> bool" where
  "required_headers_valid exo =
     (case exo of
        None \<Rightarrow> True
      | Some ex \<Rightarrow>
          (case ex_requiredHeaders ex of
             None \<Rightarrow> True
           | Some names \<Rightarrow> list_all (\<lambda>h. header_name_valid (toLowerCase h)) names))"

text \<open>
  What the required-headers rule, the rules together and the whole block leave in that
  case; the lemmas \<open>check_requiredHeaders_valid\<close>, \<open>run_expectations_valid\<close> and
  \<open>run_validations_valid\<close> below show that the block then returns exactly these states.
\<close>

definition requiredHeaders_outcome :: "http_response \<Rightarrow> expectations \<Rightarrow> vstate \<Rightarrow> vstate" where
  "requiredHeaders_outcome response ex s =
     (case ex_requiredHeaders ex of
        None \<Rightarrow> s
      | Some names \<Rightarrow>
          (let (outs, s1) = map_checks (\<lambda>h. headers_present response (toLowerCase h)) names s
           in s1\<lparr>vs_validations := (vs_validations s1)\<lparr>va_headers := Some outs\<rparr>\<rparr>))"

definition expectations_outcome ::
  "http_response \<Rightarrow> string \<Rightarrow> string \<Rightarrow> int \<Rightarrow> expectations \<Rightarrow> vstate \<Rightarrow> vstate" where
  "expectations_outcome response contentType responseBody responseTime ex s =
     check_responseType contentType ex
       (requiredHeaders_outcome response ex
         (check_bodyNotContains responseBody ex
           (check_bodyContains responseBody ex
             (check_maxResponseTime responseTime ex
               (check_statusCodeRange response ex
                 (check_statusCode response ex s))))))"

definition validations_outcome ::
  "http_response \<Rightarrow> string \<Rightarrow> string \<Rightarrow> int \<Rightarrow> expectations option \<Rightarrow> vstate" where
  "validations_outcome response contentType responseBody responseTime exo =
     implicit_check response
       (case exo of
          None \<Rightarrow> vstate_initial
        | Some ex \<Rightarrow>
            expectations_outcome response contentType responseBody responseTime ex
              vstate_initial)"

subsection \<open>\<open>apiTestTool.execute\<close>\<close>

text \<open>
  \<open>`${method}:${url}:${JSON.stringify(body || {})}`\<close>: an absent or empty body is replaced
  by the empty object, whose serialisation is \<open>{}\<close>.
\<close>

definition serialized_body :: "string option \<Rightarrow> string" where
  "serialized_body body =
     (case body of
        None \<Rightarrow> ''{}''
      | Some b \<Rightarrow> if b = [] then ''{}'' else JSON_stringify_string b)"

definition cacheKey :: "http_method \<Rightarrow> string \<Rightarrow> string option \<Rightarrow> string" where
  "cacheKey method url body =
     method_string method @ '':'' @ url @ '':'' @ serialized_body body"

definition contentType_of :: "http_response \<Rightarrow> string" where
  "contentType_of response =
     (case headers_get response ''content-type'' of None \<Rightarrow> [] | Some v \<Rightarrow> v)"

text \<open>
  Lines 137 to 148: the body is read as JSON and printed again, or read as text; a read
  that throws leaves the fixed placeholder text.
\<close>

definition body_placeholder :: string where
  "body_placeholder = ''[Unable to parse response body]''"

definition capture_body :: "http_response \<Rightarrow> string" where
  "capture_body response =
     (if str_includes (contentType_of response) ''application/json''
      then (case rsp_json response of Some b \<Rightarrow> b | None \<Rightarrow> body_placeholder)
      else (case rsp_text response of Some b \<Rightarrow> b | None \<Rightarrow> body_placeholder))"

definition build_request :: "test_context \<Rightarrow> fetch_request" where
  "build_request ctx =
     \<lparr>fr_url = tc_url ctx, fr_method = tc_method ctx,
      fr_headers = object_assign [(''User-Agent'', ''ServicePulse-APITest/1.0'')]
                     (case tc_headers ctx of None \<Rightarrow> [] | Some hs \<Rightarrow> hs),
      fr_body = (case tc_body ctx of
                   None \<Rightarrow> None
                 | Some b \<Rightarrow>
                     if b \<noteq> [] \<and> tc_method ctx \<noteq> GET \<and> tc_method ctx \<noteq> DELETE
                     then Some b else None),
      fr_timeout = tc_timeout ctx\<rparr>"

definition request_snapshot_of :: "test_context \<Rightarrow> request_snapshot" where
  "request_snapshot_of ctx =
     \<lparr>rq_method = tc_method ctx, rq_url = tc_url ctx, rq_headers = tc_headers ctx\<rparr>"

text \<open>
  \<open>AbortSignal.timeout(timeout)\<close>, evaluated while the options of \<open>fetch\<close> are built:
  Node accepts an integer from 0 to 4294967295 and throws a RangeError for any other.
\<close>

definition timeout_accepted :: "int \<Rightarrow> bool" where
  "timeout_accepted ms = (0 \<le> ms \<and> ms \<le> 4294967295)"

definition timeout_rejected_message :: string where
  "timeout_rejected_message = ''The value of delay is out of range.''"

text \<open>
  Lines 251 to 273: the result object built from the state the validation block left.
\<close>

definition result_of_validation ::
  "clock \<Rightarrow> test_context \<Rightarrow> http_response \<Rightarrow> vstate \<Rightarrow> test_result" where
  "result_of_validation ck ctx response s =
     \<lparr>tr_testStatus = testStatus_of s, tr_cached = False, tr_timestamp = ck_now ck,
      tr_request = request_snapshot_of ctx,
      tr_response = Some \<lparr>rs_statusCode = rsp_status response,
          rs_statusText = rsp_statusText response,
          rs_headers = object_assign [] (rsp_headers response),
          rs_body = capture_body response,
          rs_responseTime = ck_endTime ck - ck_startTime ck\<rparr>,
      tr_validations = Some (vs_validations s),
      tr_totalChecks = vs_totalChecks s, tr_passedChecks = vs_passedChecks s,
      tr_failedChecks = vs_totalChecks s - vs_passedChecks s,
      tr_error = None\<rparr>"

text \<open>
  The \<open>try\<close> block from the arrival of the response (line 132) to its \<open>return\<close>: the
  result, or \<open>Inl\<close> the message of the exception the validation block threw.
\<close>

definition try_after_response ::
  "clock \<Rightarrow> test_context \<Rightarrow> http_response \<Rightarrow> string + test_result" where
  "try_after_response ck ctx response =
     (case run_validations response (contentType_of response) (capture_body response)
             (ck_endTime ck - ck_startTime ck) (tc_expectations ctx) of
        Inl message \<Rightarrow> Inl message
      | Inr s \<Rightarrow> Inr (result_of_validation ck ctx response s))"

text \<open>
  The whole \<open>try\<close> block, with the calls of \<open>fetch\<close> it made: none when building the
  options already throws, one otherwise.
\<close>

definition try_block ::
  "network \<Rightarrow> clock \<Rightarrow> test_context \<Rightarrow> (string + test_result) \<times> fetch_request list" where
  "try_block fetch ck ctx =
     (if timeout_accepted (tc_timeout ctx)
      then (let req = build_request ctx in
            case fetch req of
              Threw message \<Rightarrow> (Inl message, [req])
            | Responded response \<Rightarrow> (try_after_response ck ctx response, [req]))
      else (Inl timeout_rejected_message, []))"

text \<open>
  The result the \<open>try\<close> block returns for a response when no header name is rejected (lemma
  \<open>try_after_response_valid\<close>).
\<close>

definition success_result :: "clock \<Rightarrow> test_context \<Rightarrow> http_response \<Rightarrow> test_result" where
  "success_result ck ctx response =
     result_of_validation ck ctx response
       (validations_outcome response (contentType_of response) (capture_body response)
          (ck_endTime ck - ck_startTime ck) (tc_expectations ctx))"

text \<open>The result of the \<open>catch\<close> block.\<close>

definition failure_result :: "clock \<Rightarrow> test_context \<Rightarrow> string \<Rightarrow> test_result" where
  "failure_result ck ctx message =
     \<lparr>tr_testStatus = FAIL, tr_cached = False, tr_timestamp = ck_now ck,
      tr_request = request_snapshot_of ctx,
      tr_response = None, tr_validations = None,
      tr_totalChecks = 1, tr_passedChecks = 0, tr_failedChecks = 1,
      tr_error = Some message\<rparr>"

text \<open>
  \<open>execute\<close>: the result, the cache afterwards and the calls of \<open>fetch\<close>. A hit needs an entry
  under the key whose age \<open>now - timestamp\<close> is below the \<open>cacheTTL\<close> of this call (with
  no entry the age is \<open>Infinity\<close>, which is below no TTL).
\<close>

definition cache_hit :: "testCache \<Rightarrow> string \<Rightarrow> int \<Rightarrow> int \<Rightarrow> cache_entry option" where
  "cache_hit testCache key now cacheTTL =
     (case testCache key of
        None \<Rightarrow> None
      | Some cached \<Rightarrow> if now - ce_timestamp cached < cacheTTL then Some cached else None)"

definition context_key :: "test_context \<Rightarrow> string" where
  "context_key ctx = cacheKey (tc_method ctx) (tc_url ctx) (tc_body ctx)"

definition api_execute ::
  "network \<Rightarrow> clock \<Rightarrow> test_context \<Rightarrow> testCache
     \<Rightarrow> test_result \<times> testCache \<times> fetch_request list" where
  "api_execute fetch ck ctx testCache =
     (let now = ck_now ck;
          key = context_key ctx
      in case cache_hit testCache key now (tc_cacheTTL ctx) of
           Some cached \<Rightarrow> ((ce_result cached)\<lparr>tr_cached := True\<rparr>, testCache, [])
         | None \<Rightarrow>
             (case try_block fetch ck ctx of
                (Inr result, reqs) \<Rightarrow>
                  (result,
                   testCache(key \<mapsto> \<lparr>ce_status = tr_testStatus result, ce_timestamp = now,
                       ce_responseTime = ck_endTime ck - ck_startTime ck,
                       ce_result = result\<rparr>),
                   reqs)
              | (Inl message, reqs) \<Rightarrow>
                  (let result = failure_result ck ctx message
                   in (result,
                       testCache(key \<mapsto> \<lparr>ce_status = FAIL, ce_timestamp = now,
                           ce_responseTime = 0, ce_result = result\<rparr>),
                       reqs))))"

text \<open>The result of a call that misses the cache: that of the \<open>try\<close> block, or of \<open>catch\<close>.\<close>

definition fresh_result :: "network \<Rightarrow> clock \<Rightarrow> test_context \<Rightarrow> test_result" where
  "fresh_result fetch ck ctx =
     (case fst (try_block fetch ck ctx) of
        Inr result \<Rightarrow> result
      | Inl message \<Rightarrow> failure_result ck ctx message)"

text \<open>
  Calls made one after the other, each with its own network, clock readings and context,
  on the cache the previous call left: the results in order, the final cache and all the
  requests sent.
\<close>

fun run_calls ::
  "(network \<times> clock \<times> test_context) list \<Rightarrow> testCache
     \<Rightarrow> test_result list \<times> testCache \<times> fetch_request list" where
  "run_calls [] testCache = ([], testCache, [])"
| "run_calls ((fetch, ck, ctx) # calls) testCache =
     (case api_execute fetch ck ctx testCache of
        (r, cache1, reqs) \<Rightarrow>
          (case run_calls calls cache1 of
             (rs, cache2, reqs2) \<Rightarrow> (r # rs, cache2, reqs @ reqs2)))"

subsection \<open>Counting rule instances, in the words of the specification\<close>

text \<open>
  The number N of declared rule instances of a ValidationSpec: one for each declared scalar
  rule, one for each listed token or header name.
\<close>

definition list_instances :: "string list option \<Rightarrow> nat" where
  "list_instances l = (case l of None \<Rightarrow> 0 | Some xs \<Rightarrow> length xs)"

definition scalar_instances :: "'a option \<Rightarrow> nat" where
  "scalar_instances x = (case x of None \<Rightarrow> 0 | Some v \<Rightarrow> 1)"

definition declared_rule_instances :: "expectations option \<Rightarrow> nat" where
  "declared_rule_instances exo =
     (case exo of
        None \<Rightarrow> 0
      | Some ex \<Rightarrow>
          scalar_instances (ex_statusCode ex) + scalar_instances (ex_statusCodeRange ex)
          + scalar_instances (ex_maxResponseTime ex)
          + list_instances (ex_bodyContains ex) + list_instances (ex_bodyNotContains ex)
          + list_instances (ex_requiredHeaders ex) + scalar_instances (ex_responseType ex))"

text \<open>The same count with the two token lists left out.\<close>

definition without_contains :: "expectations \<Rightarrow> expectations" where
  "without_contains ex = ex\<lparr>ex_bodyContains := None, ex_bodyNotContains := None\<rparr>"

definition counted_rule_instances :: "string \<Rightarrow> expectations option \<Rightarrow> nat" where
  "counted_rule_instances responseBody exo =
     (if responseBody = [] then declared_rule_instances (map_option without_contains exo)
      else declared_rule_instances exo)"

subsection \<open>Concrete requests and responses\<close>

definition example_clock :: clock where
  "example_clock = \<lparr>ck_now = 1000, ck_startTime = 1001, ck_endTime = 1101\<rparr>"

definition no_expectations :: expectations where
  "no_expectations =
     \<lparr>ex_statusCode = None, ex_statusCodeRange = None, ex_maxResponseTime = None,
      ex_bodyContains = None, ex_bodyNotContains = None, ex_requiredHeaders = None,
      ex_responseType = None\<rparr>"

definition example_context :: "expectations option \<Rightarrow> test_context" where
  "example_context exo =
     \<lparr>tc_url = ''https://example.test/ok'', tc_method = GET, tc_headers = None,
      tc_body = None, tc_expectations = exo, tc_cacheTTL = 300000, tc_timeout = 10000\<rparr>"

text \<open>A \<open>text/plain\<close> response; the body read gives the text, or throws for \<open>None\<close>.\<close>

definition text_response :: "int \<Rightarrow> string option \<Rightarrow> http_response" where
  "text_response code body =
     \<lparr>rsp_status = code, rsp_statusText = ''OK'',
      rsp_headers = [(''content-type'', ''text/plain'')],
      rsp_json = None, rsp_text = body\<rparr>"

definition net_ok :: network where
  "net_ok req = Responded (text_response 200 (Some ''ok''))"

definition net_empty_body :: network where
  "net_empty_body req = Responded (text_response 200 (Some []))"

definition net_unreadable_text :: network where
  "net_unreadable_text req = Responded (text_response 200 None)"

text \<open>
  A response declared as JSON whose body is the text \<open>ok\<close>, which is not JSON:
  \<open>response.json()\<close> throws.
\<close>

definition net_bad_json :: network where
  "net_bad_json req =
     Responded \<lparr>rsp_status = 200, rsp_statusText = ''OK'',
       rsp_headers = [(''content-type'', ''application/json'')],
       rsp_json = None, rsp_text = Some ''ok''\<rparr>"

definition later_clock :: clock where
  "later_clock = \<lparr>ck_now = 2000, ck_startTime = 2001, ck_endTime = 2051\<rparr>"

text \<open>The example request again, with a header and two expectations added.\<close>

definition other_context :: test_context where
  "other_context =
     (example_context (Some (no_expectations\<lparr>ex_statusCode := Some 404,
          ex_bodyContains := Some [''missing'']\<rparr>)))
       \<lparr>tc_headers := Some [(''Authorization'', ''Bearer t'')]\<rparr>"

section \<open>The asynchronous A2A route handler\<close>

text \<open>
  The request body is whatever JSON the caller sent. A JavaScript value is a \<open>json option\<close>,
  with \<open>None\<close> for \<open>undefined\<close>.
\<close>

datatype json =
  JNull | JBool bool | JNum int | JStr string | JArr "json list" | JObj "(string \<times> json) list"

fun truthy :: "json option \<Rightarrow> bool" where
  "truthy None = False"
| "truthy (Some JNull) = False"
| "truthy (Some (JBool b)) = b"
| "truthy (Some (JNum n)) = (n \<noteq> 0)"
| "truthy (Some (JStr s)) = (s \<noteq> [])"
| "truthy (Some (JArr xs)) = True"
| "truthy (Some (JObj kvs)) = True"

text \<open>
  \<open>v.name\<close> for one of the property names the handler reads (none of them is a built-in
  property of a string, array, number or boolean), and \<open>v[0]\<close>.
\<close>

fun get_prop :: "json \<Rightarrow> string \<Rightarrow> json option" where
  "get_prop (JObj kvs) name = map_of kvs name"
| "get_prop v name = None"

fun get_index0 :: "json \<Rightarrow> json option" where
  "get_index0 (JArr xs) = (case xs of [] \<Rightarrow> None | x # rest \<Rightarrow> Some x)"
| "get_index0 (JStr s) = (case s of [] \<Rightarrow> None | c # rest \<Rightarrow> Some (JStr [c]))"
| "get_index0 (JObj kvs) = map_of kvs ''0''"
| "get_index0 v = None"

text \<open>Optional chaining \<open>v?.\<close>: \<open>undefined\<close> and \<open>null\<close> give \<open>undefined\<close>.\<close>

fun opt_chain :: "json option \<Rightarrow> (json \<Rightarrow> json option) \<Rightarrow> json option" where
  "opt_chain None f = None"
| "opt_chain (Some JNull) f = None"
| "opt_chain (Some v) f = f v"

text \<open>
  \<open>const { message, contextId, taskId, configuration } = params || {}\<close>: one property of
  \<open>params\<close> if it is truthy, of the empty object otherwise.
\<close>

definition param_field :: "json \<Rightarrow> string \<Rightarrow> json option" where
  "param_field body name =
     (let params = get_prop body ''params''
      in if truthy params then opt_chain params (\<lambda>p. get_prop p name) else None)"

definition webhookUrl :: "json \<Rightarrow> json option" where
  "webhookUrl body =
     opt_chain (opt_chain (param_field body ''configuration'')
                  (\<lambda>c. get_prop c ''pushNotificationConfig''))
       (\<lambda>p. get_prop p ''url'')"

definition webhookToken :: "json \<Rightarrow> json option" where
  "webhookToken body =
     opt_chain (opt_chain (param_field body ''configuration'')
                  (\<lambda>c. get_prop c ''pushNotificationConfig''))
       (\<lambda>p. get_prop p ''token'')"

definition mainPrompt :: "json \<Rightarrow> json option" where
  "mainPrompt body =
     opt_chain (opt_chain (opt_chain (param_field body ''message'')
                             (\<lambda>m. get_prop m ''parts''))
                  get_index0)
       (\<lambda>p. get_prop p ''text'')"

text \<open>
  The request: the \<open>agentId\<close> path parameter and what \<open>await c.req.json()\<close> gives, the
  parsed body or the message of the exception it threw.
\<close>

record a2a_request =
  aq_agentId :: string
  aq_body :: "string + json"

text \<open>What the background function closes over.\<close>

record job =
  jb_agentId :: string
  jb_mainPrompt :: "json option"
  jb_webhookUrl :: "json option"
  jb_webhookToken :: "json option"
  jb_requestId :: "json option"
  jb_taskId :: "json option"
  jb_contextId :: "json option"

text \<open>
  The JSON object handed to \<open>c.json\<close> with its HTTP status. \<open>ar_task_id\<close> is \<open>None\<close> where
  the source fills in a fresh random identifier.
\<close>

record a2a_response =
  ar_http :: int
  ar_status :: string
  ar_status_code :: int
  ar_message :: string
  ar_task_id :: "json option"
  ar_details :: "string option"

text \<open>The message of the TypeError raised by destructuring a \<open>null\<close> body.\<close>

definition destructure_null_message :: string where
  "destructure_null_message = ''Cannot destructure property of null''"

text \<open>
  The \<open>try\<close> block up to the point where the background function is started: \<open>Inl\<close> is the
  message of the exception thrown, \<open>Inr\<close> the job that starts.
\<close>

definition handler_try :: "a2a_request \<Rightarrow> string + job" where
  "handler_try rq =
     (case aq_body rq of
        Inl message \<Rightarrow> Inl message
      | Inr body \<Rightarrow>
          if body = JNull then Inl destructure_null_message
          else if \<not> truthy (webhookUrl body) \<or> \<not> truthy (webhookToken body)
          then Inl ''Missing pushNotificationConfig in request''
          else if \<not> truthy (mainPrompt body)
          then Inl ''Could not find main prompt in message.parts[0].text''
          else Inr \<lparr>jb_agentId = aq_agentId rq, jb_mainPrompt = mainPrompt body,
                    jb_webhookUrl = webhookUrl body, jb_webhookToken = webhookToken body,
                    jb_requestId = get_prop body ''id'',
                    jb_taskId = param_field body ''taskId'',
                    jb_contextId = param_field body ''contextId''\<rparr>)"

definition telexA2AHandler :: "a2a_request \<Rightarrow> a2a_response \<times> job option" where
  "telexA2AHandler rq =
     (case handler_try rq of
        Inr j \<Rightarrow>
          (\<lparr>ar_http = 202, ar_status = ''success'', ar_status_code = 202,
            ar_message = ''request received'',
            ar_task_id = (if truthy (jb_taskId j) then jb_taskId j else None),
            ar_details = None\<rparr>,
           Some j)
      | Inl message \<Rightarrow>
          (\<lparr>ar_http = 500, ar_status = ''error'', ar_status_code = 500,
            ar_message = ''Internal Server Error'',
            ar_task_id = None, ar_details = Some message\<rparr>,
           None))"

text \<open>
  The background function \<open>runAgentAndPushResult\<close>. The agent registry maps an agent id to
  what \<open>generate\<close> does with a prompt: it throws, or returns a text and tool results.
\<close>

datatype generate_outcome = Generated "string option" "json list" | GenerateThrew string

type_synonym agents = "string \<Rightarrow> (json option \<Rightarrow> generate_outcome) option"

text \<open>
  One POST to the webhook. The random identifiers of the payload are left out; the task and
  context identifiers are \<open>None\<close> where a random one is generated. The parts of an
  artifact are kept as JSON values (the source sends a string as it is and any other tool
  result through \<open>JSON.stringify\<close>).
\<close>

record callback_push =
  cp_url :: "json option"
  cp_bearer :: "json option"
  cp_requestId :: "json option"
  cp_taskId :: "json option"
  cp_contextId :: "json option"
  cp_state :: string
  cp_text :: string
  cp_artifacts :: "(string \<times> json list) list"

definition runAgentAndPushResult :: "agents \<Rightarrow> job \<Rightarrow> callback_push list" where
  "runAgentAndPushResult registry j =
     (case registry (jb_agentId j) of
        None \<Rightarrow> []
      | Some generate \<Rightarrow>
          (case generate (jb_mainPrompt j) of
             GenerateThrew message \<Rightarrow> []
           | Generated text toolResults \<Rightarrow>
               (let agentText = (case text of None \<Rightarrow> [] | Some t \<Rightarrow> t);
                    artifacts = (jb_agentId j @ ''Response'', [JStr agentText]) #
                                (if length toolResults > 0
                                 then [(''ToolResults'', toolResults)] else [])
                in [\<lparr>cp_url = jb_webhookUrl j, cp_bearer = jb_webhookToken j,
                     cp_requestId = jb_requestId j,
                     cp_taskId = (if truthy (jb_taskId j) then jb_taskId j else None),
                     cp_contextId = (if truthy (jb_contextId j) then jb_contextId j else None),
                     cp_state = ''completed'', cp_text = agentText,
                     cp_artifacts = artifacts\<rparr>])))"

text \<open>
  One submission from arrival to the end of its background work: the synchronous response,
  whether background work was started, and every callback push attempted.
\<close>

definition submit_task ::
  "agents \<Rightarrow> a2a_request \<Rightarrow> a2a_response \<times> bool \<times> callback_push list" where
  "submit_task registry rq =
     (case telexA2AHandler rq of
        (response, None) \<Rightarrow> (response, False, [])
      | (response, Some j) \<Rightarrow> (response, True, runAgentAndPushResult registry j))"

subsection \<open>Concrete submissions\<close>

definition registry_done :: agents where
  "registry_done agentId = Some (\<lambda>prompt. Generated (Some ''done'') [])"

definition body_complete :: json where
  "body_complete =
     JObj [(''jsonrpc'', JStr ''2.0''), (''id'', JStr ''req-1''),
       (''params'', JObj
          [(''message'', JObj [(''parts'', JArr [JObj [(''text'', JStr ''check the api'')]])]),
           (''taskId'', JStr ''task-1''),
           (''configuration'', JObj
              [(''pushNotificationConfig'', JObj
                  [(''url'', JStr ''https://caller.test/hook''), (''token'', JStr ''secret'')])])])]"

text \<open>The same submission without \<open>configuration\<close>.\<close>

definition body_without_config :: json where
  "body_without_config =
     JObj [(''jsonrpc'', JStr ''2.0''), (''id'', JStr ''req-1''),
       (''params'', JObj
          [(''message'', JObj [(''parts'', JArr [JObj [(''text'', JStr ''check the api'')]])]),
           (''taskId'', JStr ''task-1'')])]"

section \<open>The validation block: how each rule moves the counters\<close>

lemma map_checks_eq:
  "map_checks test ts s =
     (map (\<lambda>t. (t, test t)) ts,
      s\<lparr>vs_totalChecks := vs_totalChecks s + length ts,
        vs_passedChecks := vs_passedChecks s + length (filter test ts)\<rparr>)"
  by (induction ts arbitrary: s) (simp_all add: count_check_def)

lemma check_statusCode_counts:
  "vs_totalChecks (check_statusCode response ex s)
     = vs_totalChecks s + scalar_instances (ex_statusCode ex)"
  "vs_passedChecks (check_statusCode response ex s)
     = vs_passedChecks s + (if ex_statusCode ex = Some (rsp_status response) then 1 else 0)"
  by (auto simp add: check_statusCode_def scalar_instances_def count_check_def Let_def
      split: option.splits)

lemma check_statusCodeRange_counts:
  "vs_totalChecks (check_statusCodeRange response ex s)
     = vs_totalChecks s + scalar_instances (ex_statusCodeRange ex)"
  "vs_passedChecks (check_statusCodeRange response ex s)
     = vs_passedChecks s +
       (case ex_statusCodeRange ex of None \<Rightarrow> 0
        | Some (lo, hi) \<Rightarrow> if lo \<le> rsp_status response \<and> rsp_status response \<le> hi then 1 else 0)"
  by (auto simp add: check_statusCodeRange_def scalar_instances_def count_check_def Let_def
      split: option.splits prod.splits)

lemma check_maxResponseTime_counts:
  "vs_totalChecks (check_maxResponseTime t ex s)
     = vs_totalChecks s + scalar_instances (ex_maxResponseTime ex)"
  "vs_passedChecks (check_maxResponseTime t ex s) \<le>
     vs_passedChecks s + scalar_instances (ex_maxResponseTime ex)"
  "vs_passedChecks s \<le> vs_passedChecks (check_maxResponseTime t ex s)"
  by (auto simp add: check_maxResponseTime_def scalar_instances_def count_check_def Let_def
      split: option.splits)

lemma check_bodyContains_counts:
  "vs_totalChecks (check_bodyContains body ex s)
     = vs_totalChecks s + (if body = [] then 0 else list_instances (ex_bodyContains ex))"
  "vs_passedChecks (check_bodyContains body ex s) \<le>
     vs_passedChecks s + (if body = [] then 0 else list_instances (ex_bodyContains ex))"
  "vs_passedChecks s \<le> vs_passedChecks (check_bodyContains body ex s)"
  by (auto simp add: check_bodyContains_def list_instances_def map_checks_eq
      split: option.splits)

lemma check_bodyNotContains_counts:
  "vs_totalChecks (check_bodyNotContains body ex s)
     = vs_totalChecks s + (if body = [] then 0 else list_instances (ex_bodyNotContains ex))"
  "vs_passedChecks (check_bodyNotContains body ex s) \<le>
     vs_passedChecks s + (if body = [] then 0 else list_instances (ex_bodyNotContains ex))"
  "vs_passedChecks s \<le> vs_passedChecks (check_bodyNotContains body ex s)"
  by (auto simp add: check_bodyNotContains_def list_instances_def map_checks_eq
      split: option.splits)

lemma requiredHeaders_outcome_counts:
  "vs_totalChecks (requiredHeaders_outcome response ex s)
     = vs_totalChecks s + list_instances (ex_requiredHeaders ex)"
  "vs_passedChecks (requiredHeaders_outcome response ex s) \<le>
     vs_passedChecks s + list_instances (ex_requiredHeaders ex)"
  "vs_passedChecks s \<le> vs_passedChecks (requiredHeaders_outcome response ex s)"
  by (auto simp add: requiredHeaders_outcome_def list_instances_def map_checks_eq
      split: option.splits)

lemma check_responseType_counts:
  "vs_totalChecks (check_responseType ct ex s)
     = vs_totalChecks s + scalar_instances (ex_responseType ex)"
  "vs_passedChecks (check_responseType ct ex s) \<le>
     vs_passedChecks s + scalar_instances (ex_responseType ex)"
  "vs_passedChecks s \<le> vs_passedChecks (check_responseType ct ex s)"
  by (auto simp add: check_responseType_def scalar_instances_def count_check_def Let_def
      split: option.splits)

lemma check_statusCode_passed_le:
  "vs_passedChecks (check_statusCode response ex s)
     \<le> vs_passedChecks s + scalar_instances (ex_statusCode ex)"
  "vs_passedChecks s \<le> vs_passedChecks (check_statusCode response ex s)"
  by (auto simp add: check_statusCode_counts scalar_instances_def)

lemma check_statusCodeRange_passed_le:
  "vs_passedChecks (check_statusCodeRange response ex s)
     \<le> vs_passedChecks s + scalar_instances (ex_statusCodeRange ex)"
  "vs_passedChecks s \<le> vs_passedChecks (check_statusCodeRange response ex s)"
  by (auto simp add: check_statusCodeRange_counts scalar_instances_def split: option.splits)

lemma counted_Some:
  "counted_rule_instances body (Some ex) =
     scalar_instances (ex_statusCode ex) + scalar_instances (ex_statusCodeRange ex)
     + scalar_instances (ex_maxResponseTime ex)
     + (if body = [] then 0 else list_instances (ex_bodyContains ex))
     + (if body = [] then 0 else list_instances (ex_bodyNotContains ex))
     + list_instances (ex_requiredHeaders ex) + scalar_instances (ex_responseType ex)"
  by (simp add: counted_rule_instances_def declared_rule_instances_def without_contains_def
      list_instances_def)

lemma expectations_outcome_total:
  "vs_totalChecks (expectations_outcome response ct body t ex s)
     = vs_totalChecks s + counted_rule_instances body (Some ex)"
  unfolding expectations_outcome_def counted_Some
  by (simp only: check_statusCode_counts check_statusCodeRange_counts
      check_maxResponseTime_counts check_bodyContains_counts check_bodyNotContains_counts
      requiredHeaders_outcome_counts check_responseType_counts add.assoc)

lemma expectations_outcome_passed_le:
  "vs_passedChecks (expectations_outcome response ct body t ex s)
     \<le> vs_passedChecks s + counted_rule_instances body (Some ex)"
proof -
  let ?s1 = "check_statusCode response ex s"
  let ?s2 = "check_statusCodeRange response ex ?s1"
  let ?s3 = "check_maxResponseTime t ex ?s2"
  let ?s4 = "check_bodyContains body ex ?s3"
  let ?s5 = "check_bodyNotContains body ex ?s4"
  let ?s6 = "requiredHeaders_outcome response ex ?s5"
  let ?s7 = "check_responseType ct ex ?s6"
  have "vs_passedChecks ?s7 \<le> vs_passedChecks ?s6 + scalar_instances (ex_responseType ex)"
    by (rule check_responseType_counts)
  moreover have "vs_passedChecks ?s6 \<le> vs_passedChecks ?s5 + list_instances (ex_requiredHeaders ex)"
    by (rule requiredHeaders_outcome_counts)
  moreover have "vs_passedChecks ?s5 \<le> vs_passedChecks ?s4
      + (if body = [] then 0 else list_instances (ex_bodyNotContains ex))"
    by (rule check_bodyNotContains_counts)
  moreover have "vs_passedChecks ?s4 \<le> vs_passedChecks ?s3
      + (if body = [] then 0 else list_instances (ex_bodyContains ex))"
    by (rule check_bodyContains_counts)
  moreover have "vs_passedChecks ?s3 \<le> vs_passedChecks ?s2 + scalar_instances (ex_maxResponseTime ex)"
    by (rule check_maxResponseTime_counts)
  moreover have "vs_passedChecks ?s2 \<le> vs_passedChecks ?s1 + scalar_instances (ex_statusCodeRange ex)"
    by (rule check_statusCodeRange_passed_le)
  moreover have "vs_passedChecks ?s1 \<le> vs_passedChecks s + scalar_instances (ex_statusCode ex)"
    by (rule check_statusCode_passed_le)
  ultimately have "vs_passedChecks ?s7 \<le> vs_passedChecks s + counted_rule_instances body (Some ex)"
    unfolding counted_Some by linarith
  then show ?thesis by (simp only: expectations_outcome_def)
qed

lemma validations_outcome_total:
  "vs_totalChecks (validations_outcome response ct body t exo)
     = (if counted_rule_instances body exo = 0 then 1 else counted_rule_instances body exo)"
proof (cases exo)
  case None
  then show ?thesis
    by (simp add: validations_outcome_def implicit_check_def vstate_initial_def counted_rule_instances_def
        declared_rule_instances_def)
next
  case (Some ex)
  then show ?thesis
    by (simp add: validations_outcome_def implicit_check_def expectations_outcome_total vstate_initial_def Let_def)
qed

lemma validations_outcome_implicit:
  "counted_rule_instances body exo = 0 \<Longrightarrow>
   vs_passedChecks (validations_outcome response ct body t exo)
     = (if response_ok response then 1 else 0)"
proof (cases exo)
  case None
  then show ?thesis
    by (simp add: validations_outcome_def implicit_check_def vstate_initial_def)
next
  case (Some ex)
  assume "counted_rule_instances body exo = 0"
  with Some show ?thesis
    by (simp add: validations_outcome_def implicit_check_def expectations_outcome_total vstate_initial_def Let_def)
qed

lemma validations_outcome_passed_le:
  "vs_passedChecks (validations_outcome response ct body t exo)
     \<le> vs_totalChecks (validations_outcome response ct body t exo)"
proof (cases exo)
  case None
  then show ?thesis
    by (simp add: validations_outcome_def implicit_check_def vstate_initial_def)
next
  case (Some ex)
  have "vs_passedChecks (expectations_outcome response ct body t ex vstate_initial)
          \<le> vs_totalChecks (expectations_outcome response ct body t ex vstate_initial)"
    using expectations_outcome_passed_le [of response ct body t ex vstate_initial]
    by (simp add: expectations_outcome_total vstate_initial_def)
  with Some show ?thesis
    by (simp add: validations_outcome_def implicit_check_def Let_def)
qed

lemma counted_nonempty_body:
  "body \<noteq> [] \<Longrightarrow> counted_rule_instances body exo = declared_rule_instances exo"
  by (simp add: counted_rule_instances_def)

lemma counted_no_tokens:
  "exo = Some ex \<Longrightarrow> list_instances (ex_bodyContains ex) = 0 \<Longrightarrow>
   list_instances (ex_bodyNotContains ex) = 0 \<Longrightarrow>
   counted_rule_instances body exo = declared_rule_instances exo"
  by (simp add: counted_rule_instances_def declared_rule_instances_def without_contains_def
      list_instances_def)

lemma success_result_counts:
  "tr_totalChecks (success_result ck ctx response)
     = vs_totalChecks (validations_outcome response (contentType_of response) (capture_body response)
          (ck_endTime ck - ck_startTime ck) (tc_expectations ctx))"
  "tr_passedChecks (success_result ck ctx response)
     = vs_passedChecks (validations_outcome response (contentType_of response) (capture_body response)
          (ck_endTime ck - ck_startTime ck) (tc_expectations ctx))"
  "tr_testStatus (success_result ck ctx response)
     = testStatus_of (validations_outcome response (contentType_of response) (capture_body response)
          (ck_endTime ck - ck_startTime ck) (tc_expectations ctx))"
  "tr_validations (success_result ck ctx response)
     = Some (vs_validations (validations_outcome response (contentType_of response)
          (capture_body response) (ck_endTime ck - ck_startTime ck) (tc_expectations ctx)))"
  by (simp_all add: success_result_def result_of_validation_def Let_def)

subsection \<open>The slots of the validations object\<close>

lemma check_statusCode_keeps:
  "va_bodyContains (vs_validations (check_statusCode response ex s))
     = va_bodyContains (vs_validations s)"
  "va_bodyNotContains (vs_validations (check_statusCode response ex s))
     = va_bodyNotContains (vs_validations s)"
  by (simp_all add: check_statusCode_def count_check_def Let_def split: option.splits)

lemma check_statusCodeRange_keeps:
  "va_bodyContains (vs_validations (check_statusCodeRange response ex s))
     = va_bodyContains (vs_validations s)"
  "va_bodyNotContains (vs_validations (check_statusCodeRange response ex s))
     = va_bodyNotContains (vs_validations s)"
  by (simp_all add: check_statusCodeRange_def count_check_def Let_def
      split: option.splits prod.splits)

lemma check_statusCodeRange_slot:
  "ex_statusCodeRange ex = Some (lo, hi) \<Longrightarrow>
   va_statusCode (vs_validations (check_statusCodeRange response ex s))
     = Some \<lparr>sc_expected = ExpectedRange lo hi, sc_actual = rsp_status response,
             sc_passed = (lo \<le> rsp_status response \<and> rsp_status response \<le> hi)\<rparr>"
  by (simp add: check_statusCodeRange_def count_check_def Let_def)

lemma check_maxResponseTime_keeps:
  "va_statusCode (vs_validations (check_maxResponseTime t ex s))
     = va_statusCode (vs_validations s)"
  "va_bodyContains (vs_validations (check_maxResponseTime t ex s))
     = va_bodyContains (vs_validations s)"
  "va_bodyNotContains (vs_validations (check_maxResponseTime t ex s))
     = va_bodyNotContains (vs_validations s)"
  by (simp_all add: check_maxResponseTime_def count_check_def Let_def split: option.splits)

lemma check_bodyContains_keeps:
  "va_statusCode (vs_validations (check_bodyContains body ex s))
     = va_statusCode (vs_validations s)"
  "va_bodyNotContains (vs_validations (check_bodyContains body ex s))
     = va_bodyNotContains (vs_validations s)"
  by (simp_all add: check_bodyContains_def map_checks_eq split: option.splits)

lemma check_bodyContains_slot:
  "va_bodyContains (vs_validations (check_bodyContains body ex s))
     = (if body = [] \<or> ex_bodyContains ex = None then va_bodyContains (vs_validations s)
        else map_option (map (\<lambda>t. (t, str_includes body t))) (ex_bodyContains ex))"
  by (simp add: check_bodyContains_def map_checks_eq split: option.splits)

lemma check_bodyNotContains_keeps:
  "va_statusCode (vs_validations (check_bodyNotContains body ex s))
     = va_statusCode (vs_validations s)"
  "va_bodyContains (vs_validations (check_bodyNotContains body ex s))
     = va_bodyContains (vs_validations s)"
  by (simp_all add: check_bodyNotContains_def map_checks_eq split: option.splits)

lemma check_bodyNotContains_slot:
  "va_bodyNotContains (vs_validations (check_bodyNotContains body ex s))
     = (if body = [] \<or> ex_bodyNotContains ex = None then va_bodyNotContains (vs_validations s)
        else map_option (map (\<lambda>t. (t, \<not> str_includes body t))) (ex_bodyNotContains ex))"
  by (simp add: check_bodyNotContains_def map_checks_eq split: option.splits)

lemma requiredHeaders_outcome_keeps:
  "va_statusCode (vs_validations (requiredHeaders_outcome response ex s))
     = va_statusCode (vs_validations s)"
  "va_bodyContains (vs_validations (requiredHeaders_outcome response ex s))
     = va_bodyContains (vs_validations s)"
  "va_bodyNotContains (vs_validations (requiredHeaders_outcome response ex s))
     = va_bodyNotContains (vs_validations s)"
  by (simp_all add: requiredHeaders_outcome_def map_checks_eq split: option.splits)

lemma check_responseType_keeps:
  "va_statusCode (vs_validations (check_responseType ct ex s))
     = va_statusCode (vs_validations s)"
  "va_bodyContains (vs_validations (check_responseType ct ex s))
     = va_bodyContains (vs_validations s)"
  "va_bodyNotContains (vs_validations (check_responseType ct ex s))
     = va_bodyNotContains (vs_validations s)"
  by (simp_all add: check_responseType_def count_check_def Let_def split: option.splits)

lemmas checks_keep =
  check_statusCode_keeps check_statusCodeRange_keeps check_maxResponseTime_keeps
  check_bodyContains_keeps check_bodyNotContains_keeps requiredHeaders_outcome_keeps
  check_responseType_keeps

lemma validations_outcome_slots:
  "vs_validations (validations_outcome response ct body t (Some ex))
     = vs_validations (expectations_outcome response ct body t ex vstate_initial)"
  by (simp add: validations_outcome_def implicit_check_def Let_def)

lemma expectations_outcome_bodyContains:
  "va_bodyContains (vs_validations (expectations_outcome response ct body t ex vstate_initial))
     = (if body = [] then None
        else map_option (map (\<lambda>t. (t, str_includes body t))) (ex_bodyContains ex))"
  by (simp add: expectations_outcome_def checks_keep check_bodyContains_slot vstate_initial_def
      validations_empty_def)

lemma expectations_outcome_bodyNotContains:
  "va_bodyNotContains (vs_validations (expectations_outcome response ct body t ex vstate_initial))
     = (if body = [] then None
        else map_option (map (\<lambda>t. (t, \<not> str_includes body t))) (ex_bodyNotContains ex))"
  by (simp add: expectations_outcome_def checks_keep check_bodyNotContains_slot vstate_initial_def
      validations_empty_def)

lemma expectations_outcome_statusCode_range:
  "ex_statusCodeRange ex = Some (lo, hi) \<Longrightarrow>
   va_statusCode (vs_validations (expectations_outcome response ct body t ex s))
     = Some \<lparr>sc_expected = ExpectedRange lo hi, sc_actual = rsp_status response,
             sc_passed = (lo \<le> rsp_status response \<and> rsp_status response \<le> hi)\<rparr>"
  by (simp add: expectations_outcome_def checks_keep check_statusCodeRange_slot)

lemma checks_without_contains:
  "check_statusCode response (without_contains ex) s = check_statusCode response ex s"
  "check_statusCodeRange response (without_contains ex) s = check_statusCodeRange response ex s"
  "check_maxResponseTime t (without_contains ex) s = check_maxResponseTime t ex s"
  "requiredHeaders_outcome response (without_contains ex) s = requiredHeaders_outcome response ex s"
  "check_responseType ct (without_contains ex) s = check_responseType ct ex s"
  by (simp_all add: without_contains_def check_statusCode_def check_statusCodeRange_def
      check_maxResponseTime_def requiredHeaders_outcome_def check_responseType_def)

lemma checks_empty_body:
  "check_bodyContains [] ex s = s"
  "check_bodyNotContains [] ex s = s"
  by (simp_all add: check_bodyContains_def check_bodyNotContains_def split: option.splits)

lemma expectations_outcome_empty_body:
  "expectations_outcome response ct [] t ex s
     = expectations_outcome response ct [] t (without_contains ex) s"
  by (simp add: expectations_outcome_def checks_without_contains checks_empty_body)

lemma success_result_empty_body:
  "capture_body response = [] \<Longrightarrow> tc_expectations ctx = Some ex \<Longrightarrow>
   success_result ck ctx response
     = success_result ck (ctx\<lparr>tc_expectations := Some (without_contains ex)\<rparr>) response"
  using expectations_outcome_empty_body [of response "contentType_of response"
      "ck_endTime ck - ck_startTime ck" ex vstate_initial]
  by (simp add: success_result_def result_of_validation_def validations_outcome_def implicit_check_def request_snapshot_of_def Let_def)

lemma capture_body_failed:
  "rsp_json response = None \<Longrightarrow> rsp_text response = None \<Longrightarrow>
   capture_body response = body_placeholder"
  by (simp add: capture_body_def)

lemma body_placeholder_nonempty: "body_placeholder \<noteq> []"
  by (simp add: body_placeholder_def)

section \<open>When the validation block throws\<close>

lemma map_header_checks_valid:
  "list_all (\<lambda>h. header_name_valid (toLowerCase h)) names \<Longrightarrow>
   map_header_checks response names s
     = Inr (map_checks (\<lambda>h. headers_present response (toLowerCase h)) names s)"
  by (induction names arbitrary: s)
     (simp_all add: headers_has_def Let_def split: prod.splits)

lemma map_header_checks_invalid:
  "\<not> list_all (\<lambda>h. header_name_valid (toLowerCase h)) names \<Longrightarrow>
   \<exists>message. map_header_checks response names s = Inl message"
proof (induction names arbitrary: s)
  case Nil
  then show ?case by simp
next
  case (Cons h hs)
  show ?case
  proof (cases "header_name_valid (toLowerCase h)")
    case True
    with Cons.prems have "\<not> list_all (\<lambda>h. header_name_valid (toLowerCase h)) hs"
      by simp
    from Cons.IH [OF this] obtain message where
      "map_header_checks response hs
         (count_check (headers_present response (toLowerCase h)) s) = Inl message"
      by blast
    with True show ?thesis by (simp add: headers_has_def)
  next
    case False
    then show ?thesis by (simp add: headers_has_def)
  qed
qed

lemma check_requiredHeaders_valid:
  "required_headers_valid (Some ex) \<Longrightarrow>
   check_requiredHeaders response ex s = Inr (requiredHeaders_outcome response ex s)"
  by (simp add: required_headers_valid_def check_requiredHeaders_def
      requiredHeaders_outcome_def map_header_checks_valid split: option.splits prod.splits)

lemma check_requiredHeaders_invalid:
  assumes "\<not> required_headers_valid (Some ex)"
  shows "\<exists>message. check_requiredHeaders response ex s = Inl message"
proof -
  from assms obtain names where names: "ex_requiredHeaders ex = Some names"
      "\<not> list_all (\<lambda>h. header_name_valid (toLowerCase h)) names"
    by (auto simp add: required_headers_valid_def split: option.splits)
  from map_header_checks_invalid [OF names(2)] obtain message where
    "map_header_checks response names s = Inl message" by blast
  with names(1) show ?thesis by (simp add: check_requiredHeaders_def)
qed

lemma run_expectations_valid:
  "required_headers_valid (Some ex) \<Longrightarrow>
   run_expectations response ct body t ex s = Inr (expectations_outcome response ct body t ex s)"
  by (simp add: run_expectations_def expectations_outcome_def check_requiredHeaders_valid)

lemma run_expectations_invalid:
  assumes "\<not> required_headers_valid (Some ex)"
  shows "\<exists>message. run_expectations response ct body t ex s = Inl message"
proof -
  from check_requiredHeaders_invalid [OF assms] obtain message where
    "check_requiredHeaders response ex
       (check_bodyNotContains body ex (check_bodyContains body ex
         (check_maxResponseTime t ex (check_statusCodeRange response ex
           (check_statusCode response ex s))))) = Inl message"
    by blast
  then show ?thesis by (simp add: run_expectations_def)
qed

lemma run_validations_valid:
  "required_headers_valid exo \<Longrightarrow>
   run_validations response ct body t exo = Inr (validations_outcome response ct body t exo)"
  by (cases exo)
     (simp_all add: run_validations_def validations_outcome_def run_expectations_valid)

lemma run_validations_invalid:
  assumes "\<not> required_headers_valid exo"
  shows "\<exists>message. run_validations response ct body t exo = Inl message"
proof -
  from assms obtain ex where ex: "exo = Some ex"
    by (cases exo) (simp_all add: required_headers_valid_def)
  with assms run_expectations_invalid [of ex response ct body t vstate_initial]
  obtain message where "run_expectations response ct body t ex vstate_initial = Inl message"
    by blast
  with ex show ?thesis by (simp add: run_validations_def)
qed

lemma try_after_response_valid:
  "required_headers_valid (tc_expectations ctx) \<Longrightarrow>
   try_after_response ck ctx response = Inr (success_result ck ctx response)"
  by (simp add: try_after_response_def success_result_def run_validations_valid)

lemma try_after_response_invalid:
  assumes "\<not> required_headers_valid (tc_expectations ctx)"
  shows "\<exists>message. try_after_response ck ctx response = Inl message"
proof -
  from run_validations_invalid [OF assms] obtain message where
    "run_validations response (contentType_of response) (capture_body response)
       (ck_endTime ck - ck_startTime ck) (tc_expectations ctx) = Inl message"
    by blast
  then show ?thesis by (simp add: try_after_response_def)
qed

section \<open>The \<open>try\<close> block and the cache write\<close>

lemma try_block_requests: "length (snd (try_block fetch ck ctx)) \<le> 1"
  by (simp add: try_block_def Let_def split: fetch_outcome.splits)

lemma try_block_responded:
  "timeout_accepted (tc_timeout ctx) \<Longrightarrow> fetch (build_request ctx) = Responded response \<Longrightarrow>
   try_block fetch ck ctx = (try_after_response ck ctx response, [build_request ctx])"
  by (simp add: try_block_def)

lemma try_block_threw:
  "timeout_accepted (tc_timeout ctx) \<Longrightarrow> fetch (build_request ctx) = Threw message \<Longrightarrow>
   try_block fetch ck ctx = (Inl message, [build_request ctx])"
  by (simp add: try_block_def)

lemma try_block_timeout_rejected:
  "\<not> timeout_accepted (tc_timeout ctx) \<Longrightarrow>
   try_block fetch ck ctx = (Inl timeout_rejected_message, [])"
  by (simp add: try_block_def)

lemma api_execute_hit:
  "cache_hit testCache (context_key ctx) (ck_now ck) (tc_cacheTTL ctx) = Some e \<Longrightarrow>
   api_execute fetch ck ctx testCache = ((ce_result e)\<lparr>tr_cached := True\<rparr>, testCache, [])"
  by (simp add: api_execute_def Let_def)

lemma api_execute_miss:
  "cache_hit testCache (context_key ctx) (ck_now ck) (tc_cacheTTL ctx) = None \<Longrightarrow>
   api_execute fetch ck ctx testCache =
     (fresh_result fetch ck ctx,
      testCache(context_key ctx \<mapsto>
        \<lparr>ce_status = tr_testStatus (fresh_result fetch ck ctx), ce_timestamp = ck_now ck,
         ce_responseTime = (case fst (try_block fetch ck ctx) of
                              Inr result \<Rightarrow> ck_endTime ck - ck_startTime ck
                            | Inl message \<Rightarrow> 0),
         ce_result = fresh_result fetch ck ctx\<rparr>),
      snd (try_block fetch ck ctx))"
  by (cases "try_block fetch ck ctx")
     (simp add: api_execute_def fresh_result_def failure_result_def Let_def split: sum.splits)

lemma fresh_result_cached: "tr_cached (fresh_result fetch ck ctx) = False"
  by (simp add: fresh_result_def try_block_def try_after_response_def
      result_of_validation_def failure_result_def Let_def
      split: sum.splits fetch_outcome.splits)

lemma fresh_result_request: "tr_request (fresh_result fetch ck ctx) = request_snapshot_of ctx"
  by (simp add: fresh_result_def try_block_def try_after_response_def
      result_of_validation_def failure_result_def Let_def
      split: sum.splits fetch_outcome.splits)

lemma api_execute_responded:
  assumes "cache_hit testCache (context_key ctx) (ck_now ck) (tc_cacheTTL ctx) = None"
    and "timeout_accepted (tc_timeout ctx)"
    and "fetch (build_request ctx) = Responded response"
    and "required_headers_valid (tc_expectations ctx)"
  shows "fst (api_execute fetch ck ctx testCache) = success_result ck ctx response"
  using assms
  by (simp add: api_execute_miss fresh_result_def try_block_responded try_after_response_valid)

lemma api_execute_header_rejected:
  assumes "cache_hit testCache (context_key ctx) (ck_now ck) (tc_cacheTTL ctx) = None"
    and "timeout_accepted (tc_timeout ctx)"
    and "fetch (build_request ctx) = Responded response"
    and "\<not> required_headers_valid (tc_expectations ctx)"
  shows "\<exists>message. fst (api_execute fetch ck ctx testCache) = failure_result ck ctx message"
proof -
  from try_after_response_invalid [OF assms(4)] obtain message where
    "try_after_response ck ctx response = Inl message" by blast
  with assms(1-3) have "fst (api_execute fetch ck ctx testCache) = failure_result ck ctx message"
    by (simp add: api_execute_miss fresh_result_def try_block_responded)
  then show ?thesis by blast
qed

lemma api_execute_timeout_rejected:
  assumes "cache_hit testCache (context_key ctx) (ck_now ck) (tc_cacheTTL ctx) = None"
    and "\<not> timeout_accepted (tc_timeout ctx)"
  shows "api_execute fetch ck ctx testCache =
     (failure_result ck ctx timeout_rejected_message,
      testCache(context_key ctx \<mapsto>
        \<lparr>ce_status = FAIL, ce_timestamp = ck_now ck, ce_responseTime = 0,
         ce_result = failure_result ck ctx timeout_rejected_message\<rparr>),
      [])"
  using assms
  by (simp add: api_execute_miss fresh_result_def try_block_timeout_rejected failure_result_def)

section \<open>The cache key\<close>

lemma hex_digit_not_quote: "n < 16 \<Longrightarrow> hex_digit n \<noteq> CHR 0x22"
proof -
  assume "n < 16"
  then have "hex_digit n \<in> set ''0123456789abcdef''"
    unfolding hex_digit_def by (intro nth_mem) simp
  then show ?thesis by auto
qed

lemma json_escape_char_quote:
  assumes "CHR 0x22 \<in> set (json_escape_char c)"
  shows "json_escape_char c = [CHR 0x5C, CHR 0x22]"
proof -
  let ?n = "of_char c :: nat"
  have d: "?n < 32 \<Longrightarrow> hex_digit (?n div 16) \<noteq> CHR 0x22"
    by (rule hex_digit_not_quote) simp
  have m: "hex_digit (?n mod 16) \<noteq> CHR 0x22"
    by (rule hex_digit_not_quote) simp
  have c: "?n \<noteq> 34 \<Longrightarrow> c \<noteq> CHR 0x22"
    by auto
  from assms d m c show ?thesis
    by (auto simp add: json_escape_char_def Let_def split: if_splits)
qed

lemma json_escape_char_nonempty: "json_escape_char c \<noteq> []"
  by (simp add: json_escape_char_def Let_def)

lemma escaped_quote_guarded:
  "concat (map json_escape_char b) = p @ CHR 0x22 # q \<Longrightarrow>
   p \<noteq> [] \<and> last p = CHR 0x5C"
proof (induction b arbitrary: p)
  case Nil
  then show ?case by simp
next
  case (Cons c b)
  from Cons.prems have
    "json_escape_char c @ concat (map json_escape_char b) = p @ CHR 0x22 # q"
    by simp
  then obtain us where us:
    "json_escape_char c = p @ us \<and> us @ concat (map json_escape_char b) = CHR 0x22 # q
     \<or> json_escape_char c @ us = p \<and> concat (map json_escape_char b) = us @ CHR 0x22 # q"
    unfolding append_eq_append_conv2 by blast
  then consider
    (left) w where "json_escape_char c = p @ w" "w \<noteq> []"
      "w @ concat (map json_escape_char b) = CHR 0x22 # q"
    | (right) w where "p = json_escape_char c @ w"
      "concat (map json_escape_char b) = w @ CHR 0x22 # q"
  proof (cases "us = []")
    case True
    with us have "p = json_escape_char c @ []"
        "concat (map json_escape_char b) = [] @ CHR 0x22 # q"
      by auto
    then show ?thesis by (rule right)
  next
    case False
    with us left right show ?thesis by metis
  qed
  then show ?case
  proof cases
    case left
    then obtain w' where "w = CHR 0x22 # w'"
      by (cases w) auto
    with left(1) have e: "json_escape_char c = p @ CHR 0x22 # w'"
      by simp
    then have "CHR 0x22 \<in> set (json_escape_char c)"
      by simp
    from json_escape_char_quote [OF this] e
    have "p @ CHR 0x22 # w' = [CHR 0x5C, CHR 0x22]"
      by simp
    then have "p = [CHR 0x5C]"
      by (cases p; cases "tl p") auto
    then show ?thesis by simp
  next
    case right
    from Cons.IH [OF right(2)] right(1) show ?thesis
      by simp
  qed
qed

lemma method_string_split:
  "method_string m @ CHR '':'' # r = method_string m' @ CHR '':'' # r' \<Longrightarrow> m = m' \<and> r = r'"
  by (cases m; cases m') simp_all

lemma serialized_body_cases:
  "serialized_body b = ''{}''
   \<or> (\<exists>x. serialized_body b
            = CHR 0x22 # concat (map json_escape_char x) @ [CHR 0x22])"
  by (auto simp add: serialized_body_def JSON_stringify_string_def split: option.splits)

text \<open>No serialised body ends in a colon followed by another serialised body.\<close>

lemma serialized_body_no_inner:
  "serialized_body b \<noteq> w @ CHR '':'' # serialized_body b'"
proof
  assume eq: "serialized_body b = w @ CHR '':'' # serialized_body b'"
  from serialized_body_cases [of b] show False
  proof
    assume "serialized_body b = ''{}''"
    with eq have "CHR '':'' \<in> set ''{}''"
      by (metis in_set_conv_decomp)
    then show False by simp
  next
    assume "\<exists>x. serialized_body b
        = CHR 0x22 # concat (map json_escape_char x) @ [CHR 0x22]"
    then obtain x where x: "serialized_body b
        = CHR 0x22 # concat (map json_escape_char x) @ [CHR 0x22]"
      by blast
    from serialized_body_cases [of b'] show False
    proof
      assume "serialized_body b' = ''{}''"
      with eq x have "last (CHR 0x22 # concat (map json_escape_char x)
          @ [CHR 0x22]) = last (w @ CHR '':'' # ''{}'')"
        by simp
      then show False by simp
    next
      assume "\<exists>y. serialized_body b'
          = CHR 0x22 # concat (map json_escape_char y) @ [CHR 0x22]"
      then obtain y where y: "serialized_body b'
          = CHR 0x22 # concat (map json_escape_char y) @ [CHR 0x22]"
        by blast
      from eq x y have
        "(CHR 0x22 # concat (map json_escape_char x)) @ [CHR 0x22]
           = (w @ CHR '':'' # CHR 0x22 # concat (map json_escape_char y))
             @ [CHR 0x22]"
        by simp
      then have front: "CHR 0x22 # concat (map json_escape_char x)
           = w @ CHR '':'' # CHR 0x22 # concat (map json_escape_char y)"
        by (simp only: append1_eq_conv)
      then obtain w' where "w = CHR 0x22 # w'"
        by (cases w) auto
      with front have "concat (map json_escape_char x)
           = (w' @ [CHR '':'']) @ CHR 0x22 # concat (map json_escape_char y)"
        by simp
      from escaped_quote_guarded [OF this] show False
        by simp
    qed
  qed
qed

lemma url_body_split:
  assumes "u @ CHR '':'' # serialized_body b = u' @ CHR '':'' # serialized_body b'"
  shows "u = u' \<and> serialized_body b = serialized_body b'"
proof -
  from assms consider
    (same) "u = u'"
    | (longer) w where "w \<noteq> []" "u = u' @ w"
        "w @ CHR '':'' # serialized_body b = CHR '':'' # serialized_body b'"
    | (shorter) w where "w \<noteq> []" "u' = u @ w"
        "w @ CHR '':'' # serialized_body b' = CHR '':'' # serialized_body b"
    by (auto simp add: append_eq_append_conv2) (metis append_Nil2 append_self_conv2)+
  then show ?thesis
  proof cases
    case same
    with assms show ?thesis by simp
  next
    case longer
    then obtain w' where "w = CHR '':'' # w'" by (cases w) auto
    with longer(3) have "serialized_body b' = w' @ CHR '':'' # serialized_body b" by simp
    with serialized_body_no_inner show ?thesis by blast
  next
    case shorter
    then obtain w' where "w = CHR '':'' # w'" by (cases w) auto
    with shorter(3) have "serialized_body b = w' @ CHR '':'' # serialized_body b'" by simp
    with serialized_body_no_inner show ?thesis by blast
  qed
qed

lemma cacheKey_eq_iff:
  "cacheKey m u b = cacheKey m' u' b'
     \<longleftrightarrow> m = m' \<and> u = u' \<and> serialized_body b = serialized_body b'"
proof
  assume "cacheKey m u b = cacheKey m' u' b'"
  then have "method_string m @ CHR '':'' # (u @ CHR '':'' # serialized_body b)
      = method_string m' @ CHR '':'' # (u' @ CHR '':'' # serialized_body b')"
    by (simp add: cacheKey_def)
  from method_string_split [OF this] url_body_split
  show "m = m' \<and> u = u' \<and> serialized_body b = serialized_body b'"
    by blast
next
  assume "m = m' \<and> u = u' \<and> serialized_body b = serialized_body b'"
  then show "cacheKey m u b = cacheKey m' u' b'"
    by (simp add: cacheKey_def)
qed

section \<open>Cache hits\<close>

lemma cache_hit_Some:
  "cache_hit testCache key now ttl = Some e \<longleftrightarrow>
     testCache key = Some e \<and> now - ce_timestamp e < ttl"
  by (auto simp add: cache_hit_def split: option.splits)

lemma api_execute_leaves_entry:
  assumes "api_execute fetch ck ctx cache0 = (r, cache1, reqs)"
  shows "\<exists>e. cache1 (context_key ctx) = Some e
            \<and> (ce_result e)\<lparr>tr_cached := True\<rparr> = r\<lparr>tr_cached := True\<rparr>
            \<and> length reqs \<le> 1"
proof (cases "cache_hit cache0 (context_key ctx) (ck_now ck) (tc_cacheTTL ctx)")
  case None
  from assms show ?thesis
    unfolding api_execute_miss [OF None] using try_block_requests [of fetch ck ctx] by auto
next
  case (Some e)
  from assms show ?thesis
    unfolding api_execute_hit [OF Some] using Some by (auto simp add: cache_hit_Some)
qed

lemma run_calls_all_hits:
  assumes "\<forall>(fetch, ck, ctx) \<in> set calls.
             \<exists>e. cache_hit testCache (context_key ctx) (ck_now ck) (tc_cacheTTL ctx) = Some e
                  \<and> (ce_result e)\<lparr>tr_cached := True\<rparr> = r"
  shows "run_calls calls testCache = (map (\<lambda>c. r) calls, testCache, [])"
  using assms
proof (induction calls)
  case Nil
  then show ?case by simp
next
  case (Cons c calls)
  obtain fetch ck ctx where c: "c = (fetch, ck, ctx)" by (cases c)
  from Cons.prems c obtain e where
    e: "cache_hit testCache (context_key ctx) (ck_now ck) (tc_cacheTTL ctx) = Some e"
       "(ce_result e)\<lparr>tr_cached := True\<rparr> = r"
    by auto
  have "run_calls calls testCache = (map (\<lambda>c. r) calls, testCache, [])"
    using Cons by simp
  then show ?case
    using c e by (simp add: api_execute_hit)
qed

lemma example_key:
  "context_key (example_context exo) = ''GET:https://example.test/ok:{}''"
  "context_key other_context = ''GET:https://example.test/ok:{}''"
  by (simp_all add: context_key_def cacheKey_def serialized_body_def example_context_def
      other_context_def)

lemma example_ttl:
  "tc_cacheTTL (example_context exo) = 300000"
  "tc_cacheTTL other_context = 300000"
  by (simp_all add: example_context_def other_context_def)

lemma example_timeout:
  "timeout_accepted (tc_timeout (example_context exo))"
  "timeout_accepted (tc_timeout other_context)"
  by (simp_all add: example_context_def other_context_def timeout_accepted_def)

lemma example_miss:
  "cache_hit Map.empty (context_key ctx) (ck_now ck) (tc_cacheTTL ctx) = None"
  by (simp add: cache_hit_def)

lemma example_try_block:
  "try_block net_ok example_clock (example_context None)
     = (Inr (success_result example_clock (example_context None)
               (text_response 200 (Some ''ok''))),
        [build_request (example_context None)])"
proof -
  have v: "required_headers_valid (tc_expectations (example_context None))"
    by (simp add: required_headers_valid_def example_context_def)
  have r: "net_ok (build_request (example_context None))
      = Responded (text_response 200 (Some ''ok''))"
    by (simp add: net_ok_def)
  have t: "timeout_accepted (tc_timeout (example_context None))"
    by (rule example_timeout)
  from try_block_responded [where fetch = net_ok and ctx = "example_context None", OF t r]
  show ?thesis
    by (simp add: try_after_response_valid [OF v])
qed

lemma example_first_call:
  "api_execute net_ok example_clock (example_context None) Map.empty =
     (fresh_result net_ok example_clock (example_context None),
      [''GET:https://example.test/ok:{}'' \<mapsto>
        \<lparr>ce_status = tr_testStatus (fresh_result net_ok example_clock (example_context None)),
         ce_timestamp = 1000, ce_responseTime = 100,
         ce_result = fresh_result net_ok example_clock (example_context None)\<rparr>],
      [build_request (example_context None)])"
proof -
  have t: "ck_now example_clock = 1000" "ck_endTime example_clock - ck_startTime example_clock = 100"
    by (simp_all add: example_clock_def)
  from api_execute_miss [OF example_miss, of net_ok example_clock "example_context None"]
  show ?thesis
    by (simp add: example_key t example_try_block)
qed

lemma api_execute_miss_then_hit:
  assumes miss: "cache_hit cache0 (context_key ctx1) (ck_now ck1) (tc_cacheTTL ctx1) = None"
    and key: "context_key ctx2 = context_key ctx1"
    and window: "ck_now ck2 - ck_now ck1 < tc_cacheTTL ctx2"
  shows "api_execute fetch2 ck2 ctx2 (fst (snd (api_execute fetch1 ck1 ctx1 cache0)))
           = ((fst (api_execute fetch1 ck1 ctx1 cache0))\<lparr>tr_cached := True\<rparr>,
              fst (snd (api_execute fetch1 ck1 ctx1 cache0)), [])"
proof -
  let ?e = "\<lparr>ce_status = tr_testStatus (fresh_result fetch1 ck1 ctx1), ce_timestamp = ck_now ck1,
         ce_responseTime = (case fst (try_block fetch1 ck1 ctx1) of
                              Inr result \<Rightarrow> ck_endTime ck1 - ck_startTime ck1
                            | Inl message \<Rightarrow> 0),
         ce_result = fresh_result fetch1 ck1 ctx1\<rparr>"
  have "cache_hit (fst (snd (api_execute fetch1 ck1 ctx1 cache0))) (context_key ctx2)
          (ck_now ck2) (tc_cacheTTL ctx2) = Some ?e"
    using key window by (simp add: api_execute_miss [OF miss] cache_hit_def)
  from api_execute_hit [OF this] show ?thesis
    by (simp add: api_execute_miss [OF miss])
qed

lemma context_key_same:
  "tc_method ctx2 = tc_method ctx1 \<Longrightarrow> tc_url ctx2 = tc_url ctx1 \<Longrightarrow>
   tc_body ctx2 = tc_body ctx1 \<Longrightarrow> context_key ctx2 = context_key ctx1"
  by (simp add: context_key_def)

lemma net_unreachable_threw: "net_unreachable req = Threw ''fetch failed''"
  by (simp add: net_unreachable_def)

text \<open>
  C3. After any call, let later calls with the same cache key each find the stored result
  younger than their own \<open>cacheTTL\<close>. Each of them sends no request, leaves the cache as
  it is and returns the first call's result with \<open>cached = true\<close>; the first call and all
  the later ones together send at most one request.
\<close>

theorem C3_fresh_entry_served_without_request:
  assumes first: "api_execute fetch1 ck1 ctx1 cache0 = (r1, cache1, reqs1)"
    and later: "\<forall>(fetch, ck, ctx) \<in> set calls.
                  context_key ctx = context_key ctx1
                  \<and> cache_hit cache1 (context_key ctx1) (ck_now ck) (tc_cacheTTL ctx) \<noteq> None"
  shows "run_calls calls cache1 = (map (\<lambda>c. r1\<lparr>tr_cached := True\<rparr>) calls, cache1, [])
       \<and> length (reqs1 @ snd (snd (run_calls calls cache1))) \<le> 1"
proof -
  from api_execute_leaves_entry [OF first] obtain e where
    e: "cache1 (context_key ctx1) = Some e"
       "(ce_result e)\<lparr>tr_cached := True\<rparr> = r1\<lparr>tr_cached := True\<rparr>"
       "length reqs1 \<le> 1"
    by blast
  have "\<forall>(fetch, ck, ctx) \<in> set calls.
          \<exists>e'. cache_hit cache1 (context_key ctx) (ck_now ck) (tc_cacheTTL ctx) = Some e'
               \<and> (ce_result e')\<lparr>tr_cached := True\<rparr> = r1\<lparr>tr_cached := True\<rparr>"
    using later e by (auto simp add: cache_hit_def split: if_splits)
  then have "run_calls calls cache1 = (map (\<lambda>c. r1\<lparr>tr_cached := True\<rparr>) calls, cache1, [])"
    by (rule run_calls_all_hits)
  with e show ?thesis by simp
qed

theorem C3_fresh_entry_served_without_request_witness:
  "cache_hit (fst (snd (api_execute net_ok example_clock (example_context None) Map.empty)))
      (context_key (example_context None)) (ck_now later_clock)
      (tc_cacheTTL (example_context None)) \<noteq> None
   \<and> snd (snd (api_execute net_ok example_clock (example_context None) Map.empty))
      = [build_request (example_context None)]
   \<and> run_calls [(net_unreachable, later_clock, example_context None)]
        (fst (snd (api_execute net_ok example_clock (example_context None) Map.empty)))
      = ([(fst (api_execute net_ok example_clock (example_context None) Map.empty))
             \<lparr>tr_cached := True\<rparr>],
         fst (snd (api_execute net_ok example_clock (example_context None) Map.empty)), [])"
proof -
  have first: "api_execute net_ok example_clock (example_context None) Map.empty
      = (fst (api_execute net_ok example_clock (example_context None) Map.empty),
         fst (snd (api_execute net_ok example_clock (example_context None) Map.empty)),
         snd (snd (api_execute net_ok example_clock (example_context None) Map.empty)))"
    by simp
  have later: "\<forall>(fetch, ck, ctx) \<in> set [(net_unreachable, later_clock, example_context None)].
      context_key ctx = context_key (example_context None)
      \<and> cache_hit (fst (snd (api_execute net_ok example_clock (example_context None) Map.empty)))
            (context_key (example_context None)) (ck_now ck) (tc_cacheTTL ctx) \<noteq> None"
    by (simp add: example_first_call example_key example_ttl cache_hit_def later_clock_def)
  from C3_fresh_entry_served_without_request [OF first later] later show ?thesis
    by (simp add: example_first_call)
qed

text \<open>
  C5. When a call misses the cache and an exception is raised before a response is
  obtained (\<open>fetch\<close> throws, or the timeout is rejected while its options are built), with a
  non-empty exception message, the result has \<open>testStatus = FAIL\<close>, \<open>totalChecks = 1\<close>,
  \<open>passedChecks = 0\<close> and the message as its non-empty \<open>error\<close>; the result is stored
  under the request's cache key with the time of the call, and a later call within the TTL
  is served this failure from the cache, with no request.
\<close>

theorem C5_exception_gives_cached_failure:
  assumes miss: "cache_hit testCache (context_key ctx) (ck_now ck) (tc_cacheTTL ctx) = None"
    and threw: "(timeout_accepted (tc_timeout ctx) \<and> fetch (build_request ctx) = Threw message)
                \<or> (\<not> timeout_accepted (tc_timeout ctx) \<and> message = timeout_rejected_message)"
    and nonempty: "message \<noteq> []"
  shows "tr_testStatus (fst (api_execute fetch ck ctx testCache)) = FAIL
       \<and> tr_totalChecks (fst (api_execute fetch ck ctx testCache)) = 1
       \<and> tr_passedChecks (fst (api_execute fetch ck ctx testCache)) = 0
       \<and> tr_error (fst (api_execute fetch ck ctx testCache)) = Some message
       \<and> tr_error (fst (api_execute fetch ck ctx testCache)) \<noteq> Some []
       \<and> fst (snd (api_execute fetch ck ctx testCache))
           = testCache(cacheKey (tc_method ctx) (tc_url ctx) (tc_body ctx) \<mapsto>
               \<lparr>ce_status = FAIL, ce_timestamp = ck_now ck, ce_responseTime = 0,
                ce_result = fst (api_execute fetch ck ctx testCache)\<rparr>)
       \<and> (\<forall>fetch2 ck2. ck_now ck2 - ck_now ck < tc_cacheTTL ctx \<longrightarrow>
             api_execute fetch2 ck2 ctx (fst (snd (api_execute fetch ck ctx testCache)))
               = ((fst (api_execute fetch ck ctx testCache))\<lparr>tr_cached := True\<rparr>,
                  fst (snd (api_execute fetch ck ctx testCache)), []))"
proof -
  from threw have t: "fst (try_block fetch ck ctx) = Inl message"
    by (auto simp add: try_block_threw try_block_timeout_rejected)
  have r: "fst (api_execute fetch ck ctx testCache) = failure_result ck ctx message"
    using t by (simp add: api_execute_miss [OF miss] fresh_result_def)
  have c: "fst (snd (api_execute fetch ck ctx testCache))
           = testCache(cacheKey (tc_method ctx) (tc_url ctx) (tc_body ctx) \<mapsto>
               \<lparr>ce_status = FAIL, ce_timestamp = ck_now ck, ce_responseTime = 0,
                ce_result = failure_result ck ctx message\<rparr>)"
    using t
    by (simp add: api_execute_miss [OF miss] fresh_result_def failure_result_def context_key_def)
  have later: "\<forall>fetch2 ck2. ck_now ck2 - ck_now ck < tc_cacheTTL ctx \<longrightarrow>
             api_execute fetch2 ck2 ctx (fst (snd (api_execute fetch ck ctx testCache)))
               = ((fst (api_execute fetch ck ctx testCache))\<lparr>tr_cached := True\<rparr>,
                  fst (snd (api_execute fetch ck ctx testCache)), [])"
    using api_execute_miss_then_hit [OF miss refl] by blast
  show ?thesis
    using nonempty later by (simp add: r c failure_result_def)
qed

theorem C5_exception_gives_cached_failure_witness:
  "cache_hit Map.empty (context_key (example_context None)) (ck_now example_clock)
      (tc_cacheTTL (example_context None)) = None
   \<and> timeout_accepted (tc_timeout (example_context None))
   \<and> net_unreachable (build_request (example_context None)) = Threw ''fetch failed''
   \<and> ''fetch failed'' \<noteq> []
   \<and> tr_testStatus (fst (api_execute net_unreachable example_clock (example_context None)
         Map.empty)) = FAIL
   \<and> tr_error (fst (api_execute net_unreachable example_clock (example_context None)
         Map.empty)) = Some ''fetch failed''
   \<and> ck_now later_clock - ck_now example_clock < tc_cacheTTL (example_context None)
   \<and> tr_cached (fst (api_execute net_ok later_clock (example_context None)
         (fst (snd (api_execute net_unreachable example_clock (example_context None)
            Map.empty))))) = True
   \<and> tr_testStatus (fst (api_execute net_ok later_clock (example_context None)
         (fst (snd (api_execute net_unreachable example_clock (example_context None)
            Map.empty))))) = FAIL
   \<and> snd (snd (api_execute net_ok later_clock (example_context None)
         (fst (snd (api_execute net_unreachable example_clock (example_context None)
            Map.empty))))) = []"
proof -
  have miss: "cache_hit Map.empty (context_key (example_context None)) (ck_now example_clock)
      (tc_cacheTTL (example_context None)) = None"
    by (rule example_miss)
  have accepted: "timeout_accepted (tc_timeout (example_context None))"
    by (rule example_timeout)
  have threw: "net_unreachable (build_request (example_context None)) = Threw ''fetch failed''"
    by (rule net_unreachable_threw)
  have cause: "(timeout_accepted (tc_timeout (example_context None))
        \<and> net_unreachable (build_request (example_context None)) = Threw ''fetch failed'')
      \<or> (\<not> timeout_accepted (tc_timeout (example_context None))
        \<and> ''fetch failed'' = timeout_rejected_message)"
    using accepted threw by simp
  have nonempty: "''fetch failed'' \<noteq> []"
    by simp
  have window: "ck_now later_clock - ck_now example_clock < tc_cacheTTL (example_context None)"
    by (simp add: later_clock_def example_clock_def example_ttl)
  note r = C5_exception_gives_cached_failure [where fetch = net_unreachable
      and ctx = "example_context None" and ck = example_clock and testCache = Map.empty
      and message = "''fetch failed''", OF miss cause nonempty]
  from r have served: "api_execute net_ok later_clock (example_context None)
      (fst (snd (api_execute net_unreachable example_clock (example_context None) Map.empty)))
    = ((fst (api_execute net_unreachable example_clock (example_context None) Map.empty))
          \<lparr>tr_cached := True\<rparr>,
       fst (snd (api_execute net_unreachable example_clock (example_context None) Map.empty)),
       [])"
    using window by blast
  from r have failed: "tr_testStatus (fst (api_execute net_unreachable example_clock
        (example_context None) Map.empty)) = FAIL"
      "tr_error (fst (api_execute net_unreachable example_clock
        (example_context None) Map.empty)) = Some ''fetch failed''"
    by blast+
  show ?thesis
    using miss accepted threw window failed by (simp add: served)
qed

text \<open>
  C9. The cache key is the method, the url and the serialised body joined by colons, and two
  keys are equal exactly when these three are. So two requests that agree on method, url
  and body have the same key, whatever their headers and expectations. If the first one
  missed the cache, its result is stored under that key, and a second one that comes within
  its own TTL of the first sends no request and returns the first request's result with
  \<open>cached = true\<close>: the request snapshot in it is the first request's.
\<close>

theorem C9_same_key_for_other_headers_and_expectations:
  assumes same: "tc_method ctx2 = tc_method ctx1" "tc_url ctx2 = tc_url ctx1"
      "tc_body ctx2 = tc_body ctx1"
    and miss: "cache_hit cache0 (context_key ctx1) (ck_now ck1) (tc_cacheTTL ctx1) = None"
    and window: "ck_now ck2 - ck_now ck1 < tc_cacheTTL ctx2"
  shows "context_key ctx1
           = method_string (tc_method ctx1) @ '':'' @ tc_url ctx1 @ '':''
             @ serialized_body (tc_body ctx1)
       \<and> (\<forall>ctx ctx'. context_key ctx = context_key ctx'
             \<longleftrightarrow> tc_method ctx = tc_method ctx' \<and> tc_url ctx = tc_url ctx'
                 \<and> serialized_body (tc_body ctx) = serialized_body (tc_body ctx'))
       \<and> cacheKey (tc_method ctx2) (tc_url ctx2) (tc_body ctx2)
           = cacheKey (tc_method ctx1) (tc_url ctx1) (tc_body ctx1)
       \<and> context_key ctx2 = context_key ctx1
       \<and> dom (fst (snd (api_execute fetch1 ck1 ctx1 cache0)))
           = insert (context_key ctx1) (dom cache0)
       \<and> api_execute fetch2 ck2 ctx2 (fst (snd (api_execute fetch1 ck1 ctx1 cache0)))
           = ((fst (api_execute fetch1 ck1 ctx1 cache0))\<lparr>tr_cached := True\<rparr>,
              fst (snd (api_execute fetch1 ck1 ctx1 cache0)), [])
       \<and> tr_request (fst (api_execute fetch2 ck2 ctx2
             (fst (snd (api_execute fetch1 ck1 ctx1 cache0)))))
           = request_snapshot_of ctx1"
proof -
  have form: "context_key ctx1
           = method_string (tc_method ctx1) @ '':'' @ tc_url ctx1 @ '':''
             @ serialized_body (tc_body ctx1)"
    by (simp add: context_key_def cacheKey_def)
  have inj: "\<forall>ctx ctx'. context_key ctx = context_key ctx'
             \<longleftrightarrow> tc_method ctx = tc_method ctx' \<and> tc_url ctx = tc_url ctx'
                 \<and> serialized_body (tc_body ctx) = serialized_body (tc_body ctx')"
    by (simp add: context_key_def cacheKey_eq_iff)
  have key: "context_key ctx2 = context_key ctx1"
    using same by (rule context_key_same)
  have stored: "dom (fst (snd (api_execute fetch1 ck1 ctx1 cache0)))
           = insert (context_key ctx1) (dom cache0)"
    by (simp add: api_execute_miss [OF miss])
  have second: "api_execute fetch2 ck2 ctx2 (fst (snd (api_execute fetch1 ck1 ctx1 cache0)))
           = ((fst (api_execute fetch1 ck1 ctx1 cache0))\<lparr>tr_cached := True\<rparr>,
              fst (snd (api_execute fetch1 ck1 ctx1 cache0)), [])"
    using miss key window by (rule api_execute_miss_then_hit)
  have "tr_request (fst (api_execute fetch1 ck1 ctx1 cache0)) = request_snapshot_of ctx1"
    by (simp add: api_execute_miss [OF miss] fresh_result_request)
  then have snap: "tr_request (fst (api_execute fetch2 ck2 ctx2
             (fst (snd (api_execute fetch1 ck1 ctx1 cache0)))))
           = request_snapshot_of ctx1"
    by (simp add: second)
  have keys: "cacheKey (tc_method ctx2) (tc_url ctx2) (tc_body ctx2)
           = cacheKey (tc_method ctx1) (tc_url ctx1) (tc_body ctx1)"
    using same by simp
  show ?thesis
    using form inj keys key stored second snap by (intro conjI)
qed

theorem C9_same_key_for_other_headers_and_expectations_witness:
  "tc_method other_context = tc_method (example_context None)
   \<and> tc_url other_context = tc_url (example_context None)
   \<and> tc_body other_context = tc_body (example_context None)
   \<and> tc_headers other_context \<noteq> tc_headers (example_context None)
   \<and> tc_expectations other_context \<noteq> tc_expectations (example_context None)
   \<and> cache_hit Map.empty (context_key (example_context None)) (ck_now example_clock)
        (tc_cacheTTL (example_context None)) = None
   \<and> ck_now later_clock - ck_now example_clock < tc_cacheTTL other_context
   \<and> context_key other_context = ''GET:https://example.test/ok:{}''
   \<and> cacheKey POST ''https://example.test/ok'' (Some ''hi'')
        = ''POST:https://example.test/ok:'' @ [CHR 0x22] @ ''hi'' @ [CHR 0x22]
   \<and> api_execute net_unreachable later_clock other_context
        (fst (snd (api_execute net_ok example_clock (example_context None) Map.empty)))
      = ((fst (api_execute net_ok example_clock (example_context None) Map.empty))
            \<lparr>tr_cached := True\<rparr>,
         fst (snd (api_execute net_ok example_clock (example_context None) Map.empty)), [])
   \<and> rq_headers (tr_request (fst (api_execute net_unreachable later_clock other_context
        (fst (snd (api_execute net_ok example_clock (example_context None) Map.empty))))))
      = None"
proof -
  have same: "tc_method other_context = tc_method (example_context None)"
      "tc_url other_context = tc_url (example_context None)"
      "tc_body other_context = tc_body (example_context None)"
    by (simp_all add: other_context_def example_context_def)
  have differ: "tc_headers other_context \<noteq> tc_headers (example_context None)"
      "tc_expectations other_context \<noteq> tc_expectations (example_context None)"
    by (simp_all add: other_context_def example_context_def)
  have miss: "cache_hit Map.empty (context_key (example_context None)) (ck_now example_clock)
        (tc_cacheTTL (example_context None)) = None"
    by (rule example_miss)
  have window: "ck_now later_clock - ck_now example_clock < tc_cacheTTL other_context"
    by (simp add: later_clock_def example_clock_def example_ttl)
  have h: "rq_headers (request_snapshot_of (example_context None)) = None"
    by (simp add: request_snapshot_of_def example_context_def)
  have k: "context_key other_context = ''GET:https://example.test/ok:{}''"
    by (rule example_key)
  have b: "cacheKey POST ''https://example.test/ok'' (Some ''hi'')
        = ''POST:https://example.test/ok:'' @ [CHR 0x22] @ ''hi'' @ [CHR 0x22]"
    by (simp add: cacheKey_def serialized_body_def JSON_stringify_string_def
        json_escape_char_def)
  note r = C9_same_key_for_other_headers_and_expectations [where ?fetch2.0 = net_unreachable
      and ?fetch1.0 = net_ok, OF same miss window]
  from r have second: "api_execute net_unreachable later_clock other_context
        (fst (snd (api_execute net_ok example_clock (example_context None) Map.empty)))
      = ((fst (api_execute net_ok example_clock (example_context None) Map.empty))
            \<lparr>tr_cached := True\<rparr>,
         fst (snd (api_execute net_ok example_clock (example_context None) Map.empty)), [])"
    by blast
  from r have snap: "tr_request (fst (api_execute net_unreachable later_clock
        other_context
        (fst (snd (api_execute net_ok example_clock (example_context None) Map.empty)))))
      = request_snapshot_of (example_context None)"
    by blast
  have shown: "rq_headers (tr_request (fst (api_execute net_unreachable later_clock
        other_context
        (fst (snd (api_execute net_ok example_clock (example_context None) Map.empty))))))
      = None"
    by (simp only: snap h)
  show ?thesis
    using same differ miss window k b second shown by (intro conjI)
qed

section \<open>What the validation block counts\<close>

lemma bad_header_rejected:
  "\<not> required_headers_valid (Some (ex\<lparr>ex_requiredHeaders := Some (''bad name'' # names)\<rparr>))"
  by (simp add: required_headers_valid_def header_name_valid_def is_token_char_def
      toLowerCase_def to_lower_char_def)

lemma example_responded:
  "net_ok (build_request ctx) = Responded (text_response 200 (Some ''ok''))"
  "net_empty_body (build_request ctx) = Responded (text_response 200 (Some []))"
  by (simp_all add: net_ok_def net_empty_body_def)

lemma example_expectations: "tc_expectations (example_context exo) = exo"
  by (simp add: example_context_def)

lemma text_response_body: "capture_body (text_response code (Some b)) = b"
  by (simp add: capture_body_def text_response_def contentType_of_def headers_get_def
      toLowerCase_def to_lower_char_def)

text \<open>
  C2, counterexamples. The claim: \<open>totalChecks\<close> equals the number N of declared rule
  instances (or 1 when N = 0). First, two tokens are declared under \<open>bodyContains\<close> and the
  response has an empty body: the guard \<open>expectations.bodyContains && responseBody\<close> skips
  the tokens, no check has run, and the implicit check gives \<open>totalChecks = 1\<close>, not 2.
  Second, two required headers are declared and the first name is not a header name: the
  lookup throws, and the result is the one of the \<open>catch\<close> block, with \<open>totalChecks = 1\<close>.
\<close>

theorem C2_skipped_tokens_rejected_header_counterexample:
  "declared_rule_instances (Some (no_expectations\<lparr>ex_bodyContains := Some [''a'', ''b'']\<rparr>)) = 2
   \<and> tr_totalChecks (fst (api_execute net_empty_body example_clock
         (example_context (Some (no_expectations\<lparr>ex_bodyContains := Some [''a'', ''b'']\<rparr>)))
         Map.empty)) = 1
   \<and> declared_rule_instances
         (Some (no_expectations\<lparr>ex_requiredHeaders := Some [''bad name'', ''content-type'']\<rparr>)) = 2
   \<and> tr_totalChecks (fst (api_execute net_ok example_clock
         (example_context
            (Some (no_expectations\<lparr>ex_requiredHeaders := Some [''bad name'', ''content-type'']\<rparr>)))
         Map.empty)) = 1"
proof -
  let ?a = "no_expectations\<lparr>ex_bodyContains := Some [''a'', ''b'']\<rparr>"
  let ?b = "no_expectations\<lparr>ex_requiredHeaders := Some [''bad name'', ''content-type'']\<rparr>"
  have na: "declared_rule_instances (Some ?a) = 2"
    by (simp add: declared_rule_instances_def no_expectations_def scalar_instances_def
        list_instances_def)
  have nb: "declared_rule_instances (Some ?b) = 2"
    by (simp add: declared_rule_instances_def no_expectations_def scalar_instances_def
        list_instances_def)
  have va: "required_headers_valid (tc_expectations (example_context (Some ?a)))"
    by (simp add: example_expectations required_headers_valid_def no_expectations_def)
  have "fst (api_execute net_empty_body example_clock (example_context (Some ?a)) Map.empty)
      = success_result example_clock (example_context (Some ?a)) (text_response 200 (Some []))"
    using example_miss example_timeout(1) example_responded(2) va
    by (rule api_execute_responded)
  moreover have "counted_rule_instances [] (Some ?a) = 0"
    by (simp add: counted_Some no_expectations_def scalar_instances_def list_instances_def)
  ultimately have ta: "tr_totalChecks (fst (api_execute net_empty_body example_clock
      (example_context (Some ?a)) Map.empty)) = 1"
    by (simp add: success_result_counts validations_outcome_total text_response_body
        example_expectations)
  have "\<not> required_headers_valid (tc_expectations (example_context (Some ?b)))"
    unfolding example_expectations by (rule bad_header_rejected)
  with example_miss example_timeout(1) example_responded(1)
  have "\<exists>message. fst (api_execute net_ok example_clock (example_context (Some ?b)) Map.empty)
      = failure_result example_clock (example_context (Some ?b)) message"
    by (rule api_execute_header_rejected)
  then have tb: "tr_totalChecks (fst (api_execute net_ok example_clock
      (example_context (Some ?b)) Map.empty)) = 1"
    by (auto simp add: failure_result_def)
  from na ta nb tb show ?thesis by (intro conjI)
qed

text \<open>
  C2, as the code has it. For a test that obtained a response and whose required header
  names are all header names, \<open>totalChecks\<close> equals the number of declared rule instances
  in which the tokens of \<open>bodyContains\<close> and \<open>bodyNotContains\<close> count only when the
  captured body text is not empty, or 1 when that number is 0; in that case the single
  implicit check passes iff the HTTP status is in 200..299. With a non-empty body the number
  is the N of the claim. \<open>passedChecks\<close> never exceeds \<open>totalChecks\<close>, and \<open>testStatus\<close>
  is PASS iff the two are equal.
\<close>

theorem C2_checks_counted:
  assumes miss: "cache_hit testCache (context_key ctx) (ck_now ck) (tc_cacheTTL ctx) = None"
    and accepted: "timeout_accepted (tc_timeout ctx)"
    and responded: "fetch (build_request ctx) = Responded response"
    and valid: "required_headers_valid (tc_expectations ctx)"
  shows "tr_totalChecks (fst (api_execute fetch ck ctx testCache))
     = (if counted_rule_instances (capture_body response) (tc_expectations ctx) = 0 then 1
        else counted_rule_instances (capture_body response) (tc_expectations ctx))
   \<and> (counted_rule_instances (capture_body response) (tc_expectations ctx) = 0 \<longrightarrow>
        tr_passedChecks (fst (api_execute fetch ck ctx testCache))
          = (if 200 \<le> rsp_status response \<and> rsp_status response \<le> 299 then 1 else 0))
   \<and> (capture_body response \<noteq> [] \<longrightarrow>
        counted_rule_instances (capture_body response) (tc_expectations ctx)
          = declared_rule_instances (tc_expectations ctx))
   \<and> tr_passedChecks (fst (api_execute fetch ck ctx testCache))
        \<le> tr_totalChecks (fst (api_execute fetch ck ctx testCache))
   \<and> (tr_testStatus (fst (api_execute fetch ck ctx testCache)) = PASS \<longleftrightarrow>
        tr_passedChecks (fst (api_execute fetch ck ctx testCache))
          = tr_totalChecks (fst (api_execute fetch ck ctx testCache)))"
proof -
  have r: "fst (api_execute fetch ck ctx testCache) = success_result ck ctx response"
    using miss accepted responded valid by (rule api_execute_responded)
  show ?thesis
    unfolding r success_result_counts
    using validations_outcome_total validations_outcome_implicit validations_outcome_passed_le
      counted_nonempty_body
    by (simp add: testStatus_of_def response_ok_def)
qed

theorem C2_checks_counted_witness:
  "cache_hit Map.empty (context_key (example_context None)) (ck_now example_clock)
      (tc_cacheTTL (example_context None)) = None
   \<and> timeout_accepted (tc_timeout (example_context None))
   \<and> net_ok (build_request (example_context None)) = Responded (text_response 200 (Some ''ok''))
   \<and> required_headers_valid (tc_expectations (example_context None))
   \<and> counted_rule_instances (capture_body (text_response 200 (Some ''ok''))) None = 0
   \<and> capture_body (text_response 200 (Some ''ok'')) \<noteq> []
   \<and> tr_totalChecks (fst (api_execute net_ok example_clock (example_context None)
         Map.empty)) = 1
   \<and> tr_passedChecks (fst (api_execute net_ok example_clock (example_context None)
         Map.empty)) = 1
   \<and> tr_testStatus (fst (api_execute net_ok example_clock (example_context None)
         Map.empty)) = PASS
   \<and> tr_totalChecks (fst (api_execute net_ok example_clock
         (example_context (Some (no_expectations\<lparr>ex_statusCode := Some 200,
            ex_maxResponseTime := Some 1000\<rparr>)))
         Map.empty)) = 2"
proof -
  let ?two = "no_expectations\<lparr>ex_statusCode := Some 200, ex_maxResponseTime := Some 1000\<rparr>"
  have v0: "required_headers_valid (tc_expectations (example_context None))"
    by (simp add: example_expectations required_headers_valid_def)
  have v2: "required_headers_valid (tc_expectations (example_context (Some ?two)))"
    by (simp add: example_expectations required_headers_valid_def no_expectations_def)
  have n0: "counted_rule_instances (capture_body (text_response 200 (Some ''ok''))) None = 0"
    by (simp add: counted_rule_instances_def declared_rule_instances_def)
  have n2: "counted_rule_instances (capture_body (text_response 200 (Some ''ok'')))
      (Some ?two) = 2"
    by (simp add: counted_Some no_expectations_def scalar_instances_def list_instances_def)
  have b: "capture_body (text_response 200 (Some ''ok'')) \<noteq> []"
    by (simp add: text_response_body)
  have s: "rsp_status (text_response 200 (Some ''ok'')) = 200"
    by (simp add: text_response_def)
  note r0 = C2_checks_counted [where fetch = net_ok and testCache = Map.empty
      and ctx = "example_context None" and ck = example_clock
      and response = "text_response 200 (Some ''ok'')",
      OF example_miss example_timeout(1) example_responded(1) v0]
  note r2 = C2_checks_counted [where fetch = net_ok and testCache = Map.empty
      and ctx = "example_context (Some ?two)" and ck = example_clock
      and response = "text_response 200 (Some ''ok'')",
      OF example_miss example_timeout(1) example_responded(1) v2]
  from r0 n0 s have t0: "tr_totalChecks (fst (api_execute net_ok example_clock
        (example_context None) Map.empty)) = 1"
      "tr_passedChecks (fst (api_execute net_ok example_clock (example_context None)
         Map.empty)) = 1"
    by (simp_all add: example_expectations)
  with r0 have p0: "tr_testStatus (fst (api_execute net_ok example_clock (example_context None)
         Map.empty)) = PASS"
    by simp
  from r2 n2 have t2: "tr_totalChecks (fst (api_execute net_ok example_clock
        (example_context (Some ?two)) Map.empty)) = 2"
    by (simp add: example_expectations)
  show ?thesis
    using example_miss example_timeout(1) example_responded(1) v0 n0 b t0 p0 t2
    by (intro conjI)
qed

lemma unreadable_body_placeholder:
  "capture_body \<lparr>rsp_status = 200, rsp_statusText = ''OK'',
       rsp_headers = [(''content-type'', ''application/json'')],
       rsp_json = None, rsp_text = Some ''ok''\<rparr> = ''[Unable to parse response body]''"
  "capture_body (text_response 200 None) = ''[Unable to parse response body]''"
  by (simp_all add: capture_body_def contentType_of_def headers_get_def toLowerCase_def
      to_lower_char_def text_response_def body_placeholder_def)

lemma placeholder_tokens:
  "\<not> str_includes ''[Unable to parse response body]'' ''ok''"
  "\<not> str_includes ''[Unable to parse response body]'' ''error''"
  by simp_all

lemma contains_result:
  assumes miss: "cache_hit testCache (context_key ctx) (ck_now ck) (tc_cacheTTL ctx) = None"
    and accepted: "timeout_accepted (tc_timeout ctx)"
    and responded: "fetch (build_request ctx) = Responded response"
    and ex: "tc_expectations ctx = Some (no_expectations\<lparr>ex_bodyContains := Some [''ok''],
        ex_bodyNotContains := Some [''error'']\<rparr>)"
    and body: "capture_body response = ''[Unable to parse response body]''"
  shows "map_option rs_body (tr_response (fst (api_execute fetch ck ctx testCache)))
      = Some ''[Unable to parse response body]''"
    and "tr_totalChecks (fst (api_execute fetch ck ctx testCache)) = 2"
    and "tr_passedChecks (fst (api_execute fetch ck ctx testCache)) = 1"
    and "tr_testStatus (fst (api_execute fetch ck ctx testCache)) = FAIL"
    and "map_option va_bodyContains (tr_validations (fst (api_execute fetch ck ctx testCache)))
      = Some (Some [(''ok'', False)])"
    and "map_option va_bodyNotContains (tr_validations (fst (api_execute fetch ck ctx testCache)))
      = Some (Some [(''error'', True)])"
proof -
  have valid: "required_headers_valid (tc_expectations ctx)"
    by (simp add: ex required_headers_valid_def no_expectations_def)
  have r: "fst (api_execute fetch ck ctx testCache) = success_result ck ctx response"
    using miss accepted responded valid by (rule api_execute_responded)
  show "map_option rs_body (tr_response (fst (api_execute fetch ck ctx testCache)))
      = Some ''[Unable to parse response body]''"
    by (simp add: r success_result_def result_of_validation_def body)
  show "tr_totalChecks (fst (api_execute fetch ck ctx testCache)) = 2"
    by (simp add: r success_result_counts validations_outcome_total body ex counted_Some
        no_expectations_def scalar_instances_def list_instances_def)
  have s: "vs_passedChecks (validations_outcome response (contentType_of response)
      ''[Unable to parse response body]'' (ck_endTime ck - ck_startTime ck)
      (Some (no_expectations\<lparr>ex_bodyContains := Some [''ok''],
        ex_bodyNotContains := Some [''error'']\<rparr>))) = 1"
    by (simp add: validations_outcome_def implicit_check_def expectations_outcome_def
        check_statusCode_def check_statusCodeRange_def check_maxResponseTime_def
        check_bodyContains_def check_bodyNotContains_def requiredHeaders_outcome_def
        check_responseType_def no_expectations_def vstate_initial_def count_check_def)
  show "tr_passedChecks (fst (api_execute fetch ck ctx testCache)) = 1"
    by (simp add: r success_result_counts body ex s)
  have t: "vs_totalChecks (validations_outcome response (contentType_of response)
      ''[Unable to parse response body]'' (ck_endTime ck - ck_startTime ck)
      (Some (no_expectations\<lparr>ex_bodyContains := Some [''ok''],
        ex_bodyNotContains := Some [''error'']\<rparr>))) = 2"
    by (simp add: validations_outcome_total counted_Some no_expectations_def
        scalar_instances_def list_instances_def)
  show "tr_testStatus (fst (api_execute fetch ck ctx testCache)) = FAIL"
    by (simp add: r success_result_counts testStatus_of_def body ex s t)
  show "map_option va_bodyContains (tr_validations (fst (api_execute fetch ck ctx testCache)))
      = Some (Some [(''ok'', False)])"
    by (simp add: r success_result_counts validations_outcome_slots
        expectations_outcome_bodyContains body ex no_expectations_def)
  show "map_option va_bodyNotContains (tr_validations (fst (api_execute fetch ck ctx testCache)))
      = Some (Some [(''error'', True)])"
    by (simp add: r success_result_counts validations_outcome_slots
        expectations_outcome_bodyNotContains body ex no_expectations_def)
qed

text \<open>
  C6. The claim: when the response body could not be captured, the contains-checks are
  skipped, count nothing and record no outcome. The guard \<open>&& responseBody\<close> skips them for
  a body that is absent or empty (lemma \<open>success_result_empty_body\<close>), but the \<open>catch\<close> of
  the body read stores the placeholder text, which is not empty. For a response declared as
  JSON whose body is not JSON, and for a text response whose read throws, the tokens of
  \<open>bodyContains\<close> and \<open>bodyNotContains\<close> are tested against the placeholder: two checks
  are counted, \<open>ok\<close> is reported as not found and fails the test, \<open>error\<close> is reported
  as absent and passes.
\<close>

theorem C6_unreadable_body_checked_against_placeholder:
  "map_option rs_body (tr_response (fst (api_execute net_bad_json example_clock
      (example_context (Some (no_expectations\<lparr>ex_bodyContains := Some [''ok''],
         ex_bodyNotContains := Some [''error'']\<rparr>))) Map.empty)))
     = Some ''[Unable to parse response body]''
   \<and> tr_totalChecks (fst (api_execute net_bad_json example_clock
      (example_context (Some (no_expectations\<lparr>ex_bodyContains := Some [''ok''],
         ex_bodyNotContains := Some [''error'']\<rparr>))) Map.empty)) = 2
   \<and> tr_passedChecks (fst (api_execute net_bad_json example_clock
      (example_context (Some (no_expectations\<lparr>ex_bodyContains := Some [''ok''],
         ex_bodyNotContains := Some [''error'']\<rparr>))) Map.empty)) = 1
   \<and> tr_testStatus (fst (api_execute net_bad_json example_clock
      (example_context (Some (no_expectations\<lparr>ex_bodyContains := Some [''ok''],
         ex_bodyNotContains := Some [''error'']\<rparr>))) Map.empty)) = FAIL
   \<and> map_option va_bodyContains (tr_validations (fst (api_execute net_bad_json example_clock
      (example_context (Some (no_expectations\<lparr>ex_bodyContains := Some [''ok''],
         ex_bodyNotContains := Some [''error'']\<rparr>))) Map.empty)))
     = Some (Some [(''ok'', False)])
   \<and> map_option va_bodyNotContains (tr_validations (fst (api_execute net_bad_json
      example_clock
      (example_context (Some (no_expectations\<lparr>ex_bodyContains := Some [''ok''],
         ex_bodyNotContains := Some [''error'']\<rparr>))) Map.empty)))
     = Some (Some [(''error'', True)])
   \<and> map_option rs_body (tr_response (fst (api_execute net_unreadable_text example_clock
      (example_context (Some (no_expectations\<lparr>ex_bodyContains := Some [''ok''],
         ex_bodyNotContains := Some [''error'']\<rparr>))) Map.empty)))
     = Some ''[Unable to parse response body]''
   \<and> tr_totalChecks (fst (api_execute net_unreadable_text example_clock
      (example_context (Some (no_expectations\<lparr>ex_bodyContains := Some [''ok''],
         ex_bodyNotContains := Some [''error'']\<rparr>))) Map.empty)) = 2
   \<and> tr_testStatus (fst (api_execute net_unreadable_text example_clock
      (example_context (Some (no_expectations\<lparr>ex_bodyContains := Some [''ok''],
         ex_bodyNotContains := Some [''error'']\<rparr>))) Map.empty)) = FAIL"
proof -
  let ?ctx = "example_context (Some (no_expectations\<lparr>ex_bodyContains := Some [''ok''],
         ex_bodyNotContains := Some [''error'']\<rparr>))"
  have j: "net_bad_json (build_request ?ctx) = Responded \<lparr>rsp_status = 200,
       rsp_statusText = ''OK'', rsp_headers = [(''content-type'', ''application/json'')],
       rsp_json = None, rsp_text = Some ''ok''\<rparr>"
    by (simp add: net_bad_json_def)
  have t: "net_unreadable_text (build_request ?ctx) = Responded (text_response 200 None)"
    by (simp add: net_unreadable_text_def)
  note a = contains_result [where fetch = net_bad_json and ctx = ?ctx and ck = example_clock
      and testCache = Map.empty,
      OF example_miss example_timeout(1) j example_expectations unreadable_body_placeholder(1)]
  note b = contains_result [where fetch = net_unreadable_text and ctx = ?ctx
      and ck = example_clock and testCache = Map.empty,
      OF example_miss example_timeout(1) t example_expectations unreadable_body_placeholder(2)]
  show ?thesis
    using a b(1,2,4) by (intro conjI)
qed

section \<open>Exact status code and status-code range together\<close>

text \<open>
  C7, counterexample. The claim: for every request declaring both an exact status code and
  a range, each adds one check and the \<open>statusCode\<close> slot holds the range outcome. With a
  required header name that is not a header name declared as well, the validation block
  throws after both status rules have run: the result is the one of the \<open>catch\<close> block,
  which has no validations at all and \<open>totalChecks = 1\<close>.
\<close>

theorem C7_rejected_header_counterexample:
  "ex_statusCode (no_expectations\<lparr>ex_statusCode := Some 200,
       ex_statusCodeRange := Some (200, 299), ex_requiredHeaders := Some [''bad name'']\<rparr>)
     = Some 200
   \<and> ex_statusCodeRange (no_expectations\<lparr>ex_statusCode := Some 200,
       ex_statusCodeRange := Some (200, 299), ex_requiredHeaders := Some [''bad name'']\<rparr>)
     = Some (200, 299)
   \<and> tr_validations (fst (api_execute net_ok example_clock
        (example_context (Some (no_expectations\<lparr>ex_statusCode := Some 200,
           ex_statusCodeRange := Some (200, 299), ex_requiredHeaders := Some [''bad name'']\<rparr>)))
        Map.empty)) = None
   \<and> tr_totalChecks (fst (api_execute net_ok example_clock
        (example_context (Some (no_expectations\<lparr>ex_statusCode := Some 200,
           ex_statusCodeRange := Some (200, 299), ex_requiredHeaders := Some [''bad name'']\<rparr>)))
        Map.empty)) = 1
   \<and> tr_testStatus (fst (api_execute net_ok example_clock
        (example_context (Some (no_expectations\<lparr>ex_statusCode := Some 200,
           ex_statusCodeRange := Some (200, 299), ex_requiredHeaders := Some [''bad name'']\<rparr>)))
        Map.empty)) = FAIL"
proof -
  let ?ex = "no_expectations\<lparr>ex_statusCode := Some 200,
       ex_statusCodeRange := Some (200, 299), ex_requiredHeaders := Some [''bad name'']\<rparr>"
  have "\<not> required_headers_valid (tc_expectations (example_context (Some ?ex)))"
    unfolding example_expectations by (rule bad_header_rejected)
  with example_miss example_timeout(1) example_responded(1)
  have "\<exists>message. fst (api_execute net_ok example_clock (example_context (Some ?ex)) Map.empty)
      = failure_result example_clock (example_context (Some ?ex)) message"
    by (rule api_execute_header_rejected)
  then obtain message where
    "fst (api_execute net_ok example_clock (example_context (Some ?ex)) Map.empty)
      = failure_result example_clock (example_context (Some ?ex)) message"
    by blast
  then show ?thesis
    by (simp add: failure_result_def)
qed

text \<open>
  C7, as the code has it. For a test that obtained a response and whose required header
  names are all header names: when both an exact status code and a status-code range are
  declared, each adds one check to \<open>totalChecks\<close> (the total is two more than what the
  other declared rules count), and the \<open>statusCode\<close> slot of the validations holds the
  outcome of the range rule.
\<close>

theorem C7_range_overwrites_exact_slot:
  assumes miss: "cache_hit testCache (context_key ctx) (ck_now ck) (tc_cacheTTL ctx) = None"
    and accepted: "timeout_accepted (tc_timeout ctx)"
    and responded: "fetch (build_request ctx) = Responded response"
    and valid: "required_headers_valid (tc_expectations ctx)"
    and declared: "tc_expectations ctx = Some ex"
    and exact: "ex_statusCode ex = Some code"
    and range: "ex_statusCodeRange ex = Some (lo, hi)"
  shows "map_option va_statusCode (tr_validations (fst (api_execute fetch ck ctx testCache)))
           = Some (Some \<lparr>sc_expected = ExpectedRange lo hi, sc_actual = rsp_status response,
               sc_passed = (lo \<le> rsp_status response \<and> rsp_status response \<le> hi)\<rparr>)
       \<and> tr_totalChecks (fst (api_execute fetch ck ctx testCache))
           = 1 + 1 + counted_rule_instances (capture_body response)
                       (Some (ex\<lparr>ex_statusCode := None, ex_statusCodeRange := None\<rparr>))"
proof -
  have r: "fst (api_execute fetch ck ctx testCache) = success_result ck ctx response"
    using miss accepted responded valid by (rule api_execute_responded)
  have slot: "map_option va_statusCode (tr_validations (success_result ck ctx response))
           = Some (Some \<lparr>sc_expected = ExpectedRange lo hi, sc_actual = rsp_status response,
               sc_passed = (lo \<le> rsp_status response \<and> rsp_status response \<le> hi)\<rparr>)"
    using declared range
    by (simp add: success_result_counts validations_outcome_slots
        expectations_outcome_statusCode_range)
  have count: "counted_rule_instances (capture_body response) (Some ex)
      = 2 + counted_rule_instances (capture_body response)
              (Some (ex\<lparr>ex_statusCode := None, ex_statusCodeRange := None\<rparr>))"
    using exact range by (simp add: counted_Some scalar_instances_def)
  have "tr_totalChecks (success_result ck ctx response)
      = counted_rule_instances (capture_body response) (Some ex)"
    using declared count by (simp add: success_result_counts validations_outcome_total)
  with slot count show ?thesis by (simp add: r)
qed

theorem C7_range_overwrites_exact_slot_witness:
  "cache_hit Map.empty (context_key (example_context (Some (no_expectations
       \<lparr>ex_statusCode := Some 200, ex_statusCodeRange := Some (400, 499)\<rparr>))))
      (ck_now example_clock) (tc_cacheTTL (example_context (Some (no_expectations
       \<lparr>ex_statusCode := Some 200, ex_statusCodeRange := Some (400, 499)\<rparr>)))) = None
   \<and> timeout_accepted (tc_timeout (example_context (Some (no_expectations
       \<lparr>ex_statusCode := Some 200, ex_statusCodeRange := Some (400, 499)\<rparr>))))
   \<and> required_headers_valid (tc_expectations (example_context (Some (no_expectations
       \<lparr>ex_statusCode := Some 200, ex_statusCodeRange := Some (400, 499)\<rparr>))))
   \<and> ex_statusCode (no_expectations\<lparr>ex_statusCode := Some 200,
         ex_statusCodeRange := Some (400, 499)\<rparr>) = Some 200
   \<and> ex_statusCodeRange (no_expectations\<lparr>ex_statusCode := Some 200,
         ex_statusCodeRange := Some (400, 499)\<rparr>) = Some (400, 499)
   \<and> map_option va_statusCode (tr_validations (fst (api_execute net_ok example_clock
         (example_context (Some (no_expectations\<lparr>ex_statusCode := Some 200,
            ex_statusCodeRange := Some (400, 499)\<rparr>)))
         Map.empty)))
       = Some (Some \<lparr>sc_expected = ExpectedRange 400 499, sc_actual = 200, sc_passed = False\<rparr>)
   \<and> tr_totalChecks (fst (api_execute net_ok example_clock
         (example_context (Some (no_expectations\<lparr>ex_statusCode := Some 200,
            ex_statusCodeRange := Some (400, 499)\<rparr>)))
         Map.empty)) = 2"
proof -
  let ?ex = "no_expectations\<lparr>ex_statusCode := Some 200, ex_statusCodeRange := Some (400, 499)\<rparr>"
  have v: "required_headers_valid (tc_expectations (example_context (Some ?ex)))"
    by (simp add: example_expectations required_headers_valid_def no_expectations_def)
  have c: "ex_statusCode ?ex = Some 200"
    by simp
  have g: "ex_statusCodeRange ?ex = Some (400, 499)"
    by simp
  have n: "counted_rule_instances (capture_body (text_response 200 (Some ''ok'')))
      (Some (?ex\<lparr>ex_statusCode := None, ex_statusCodeRange := None\<rparr>)) = 0"
    by (simp add: counted_Some no_expectations_def scalar_instances_def list_instances_def)
  have s: "rsp_status (text_response 200 (Some ''ok'')) = 200"
    by (simp add: text_response_def)
  note r = C7_range_overwrites_exact_slot [where fetch = net_ok and testCache = Map.empty
      and ctx = "example_context (Some ?ex)" and ck = example_clock
      and response = "text_response 200 (Some ''ok'')" and ex = ?ex and code = 200
      and lo = 400 and hi = 499,
      OF example_miss example_timeout(1) example_responded(1) v example_expectations c g]
  from r s have slot: "map_option va_statusCode (tr_validations (fst (api_execute net_ok
        example_clock (example_context (Some ?ex)) Map.empty)))
       = Some (Some \<lparr>sc_expected = ExpectedRange 400 499, sc_actual = 200, sc_passed = False\<rparr>)"
    by simp
  from r n have total: "tr_totalChecks (fst (api_execute net_ok example_clock
        (example_context (Some ?ex)) Map.empty)) = 2"
    by simp
  show ?thesis
    using example_miss example_timeout(1) v c g slot total by (intro conjI)
qed

section \<open>Health checks: change detection and the cache cell\<close>

lemma health_success_statusChanged:
  "\<not> health_isCacheFresh hc now (hx_cacheTTL ctx) \<or> hc_status hc = None \<Longrightarrow>
   fetch (health_request (hx_targetUrl ctx)) = Responded response \<Longrightarrow>
   hr_statusChanged (fst (health_execute fetch now ctx hc))
     = Some (hc_status hc \<noteq> None
             \<and> hc_status hc \<noteq> Some (hr_status (fst (health_execute fetch now ctx hc))))"
  by (auto simp: health_execute_def Let_def)

text \<open>
  C1. The claim: on the cache-miss path, also in the error branch, \<open>statusChanged\<close> is true
  iff the stored status was non-null and differs from the new one, so a first observation
  never reports a change. The success branch tests \<open>healthCache.status !== null\<close> first
  (lemma \<open>health_success_statusChanged\<close>); the catch branch only tests
  \<open>healthCache.status !== 'DOWN'\<close>. On the initial cell, a check whose request throws
  returns status DOWN with \<open>statusChanged = true\<close>.
\<close>

theorem C1_first_error_reports_change:
  "hc_status healthCache_initial = None
   \<and> hr_status (fst (health_execute net_unreachable 1000
         \<lparr>hx_targetUrl = ''https://a.test/health'', hx_cacheTTL = 300000\<rparr>
         healthCache_initial)) = DOWN
   \<and> hr_statusChanged (fst (health_execute net_unreachable 1000
         \<lparr>hx_targetUrl = ''https://a.test/health'', hx_cacheTTL = 300000\<rparr>
         healthCache_initial)) = Some True"
  by (simp add: health_execute_def healthCache_initial_def health_isCacheFresh_def
      health_cacheAge_def net_unreachable_def Let_def)

lemma health_execute_fresh:
  assumes "hc_status hc = Some st" and "hc_timestamp hc = Some t" and "t \<noteq> 0"
    and "now - t < hx_cacheTTL ctx"
  shows "health_execute fetch now ctx hc =
    (\<lparr>hr_status = st, hr_cached = True, hr_timestamp = t,
      hr_cacheAge = Some (round_seconds (now - t)),
      hr_httpStatus = None, hr_statusChanged = None, hr_error = None\<rparr>, hc, [])"
  using assms
  by (simp add: health_execute_def health_isCacheFresh_def health_cacheAge_def)

lemma health_execute_stale:
  assumes "hc_timestamp hc = Some t" and "hx_cacheTTL ctx \<le> now - t"
  shows "snd (snd (health_execute fetch now ctx hc)) = [health_request (hx_targetUrl ctx)]"
    and "hr_cached (fst (health_execute fetch now ctx hc)) = False"
    and "hc_timestamp (fst (snd (health_execute fetch now ctx hc))) = Some now"
  using assms
  by (simp_all add: health_execute_def health_isCacheFresh_def health_cacheAge_def Let_def
      split: fetch_outcome.splits)

text \<open>
  C4, counterexample. The claim: the health cache is keyed by the target URL, so a fresh
  status obtained for one URL is not returned for another. The cache is one cell. URL a
  answers 200 and URL b answers 503; after a check of a at time 1000, a check of b at time
  2000 sends no request and returns a's status UP with \<open>cached = true\<close>, although b
  checked on its own is DOWN.
\<close>

theorem C4_counterexample_cell_shared_by_urls:
  "''https://a.test/health'' \<noteq> ''https://b.test/health''
   \<and> hr_status (fst (health_execute net_a_up_b_down 1000
        \<lparr>hx_targetUrl = ''https://a.test/health'', hx_cacheTTL = 300000\<rparr>
        healthCache_initial)) = UP
   \<and> hr_cached (fst (health_execute net_a_up_b_down 1000
        \<lparr>hx_targetUrl = ''https://a.test/health'', hx_cacheTTL = 300000\<rparr>
        healthCache_initial)) = False
   \<and> hr_status (fst (health_execute net_a_up_b_down 1000
        \<lparr>hx_targetUrl = ''https://b.test/health'', hx_cacheTTL = 300000\<rparr>
        healthCache_initial)) = DOWN
   \<and> hr_status (fst (health_execute net_a_up_b_down 2000
        \<lparr>hx_targetUrl = ''https://b.test/health'', hx_cacheTTL = 300000\<rparr>
        (fst (snd (health_execute net_a_up_b_down 1000
           \<lparr>hx_targetUrl = ''https://a.test/health'', hx_cacheTTL = 300000\<rparr>
           healthCache_initial))))) = UP
   \<and> hr_cached (fst (health_execute net_a_up_b_down 2000
        \<lparr>hx_targetUrl = ''https://b.test/health'', hx_cacheTTL = 300000\<rparr>
        (fst (snd (health_execute net_a_up_b_down 1000
           \<lparr>hx_targetUrl = ''https://a.test/health'', hx_cacheTTL = 300000\<rparr>
           healthCache_initial))))) = True
   \<and> snd (snd (health_execute net_a_up_b_down 2000
        \<lparr>hx_targetUrl = ''https://b.test/health'', hx_cacheTTL = 300000\<rparr>
        (fst (snd (health_execute net_a_up_b_down 1000
           \<lparr>hx_targetUrl = ''https://a.test/health'', hx_cacheTTL = 300000\<rparr>
           healthCache_initial))))) = []"
  by (simp add: health_execute_def healthCache_initial_def health_isCacheFresh_def
      health_cacheAge_def net_a_up_b_down_def plain_response_def response_ok_def
      health_request_def Let_def)

text \<open>
  C4, as the code has it. The health cache is a single cell that is not keyed by the target
  URL: while the cell is fresh (a status is stored, the timestamp is set and its age is below
  the call's \<open>cacheTTL\<close>), a check of any target URL returns the stored status with
  \<open>cached = true\<close> and sends no request, and the outcome is the same for every URL.
\<close>

theorem C4_one_cell_for_every_url:
  assumes "hc_status hc = Some st" and "hc_timestamp hc = Some t" and "t \<noteq> 0"
    and "now - t < cacheTTL"
  shows "health_execute fetch now \<lparr>hx_targetUrl = url, hx_cacheTTL = cacheTTL\<rparr> hc =
    (\<lparr>hr_status = st, hr_cached = True, hr_timestamp = t,
      hr_cacheAge = Some (round_seconds (now - t)),
      hr_httpStatus = None, hr_statusChanged = None, hr_error = None\<rparr>, hc, [])
    \<and> health_execute fetch now \<lparr>hx_targetUrl = url, hx_cacheTTL = cacheTTL\<rparr> hc
      = health_execute fetch now \<lparr>hx_targetUrl = url', hx_cacheTTL = cacheTTL\<rparr> hc"
  using assms by (simp add: health_execute_fresh)

theorem C4_one_cell_for_every_url_witness:
  "hc_status \<lparr>hc_status = Some UP, hc_timestamp = Some 1000, hc_lastError = None\<rparr> = Some UP
   \<and> hc_timestamp \<lparr>hc_status = Some UP, hc_timestamp = Some 1000, hc_lastError = None\<rparr>
       = Some 1000
   \<and> (1000::int) \<noteq> 0 \<and> (2000::int) - 1000 < 300000
   \<and> health_execute net_a_up_b_down 2000
        \<lparr>hx_targetUrl = ''https://b.test/health'', hx_cacheTTL = 300000\<rparr>
        \<lparr>hc_status = Some UP, hc_timestamp = Some 1000, hc_lastError = None\<rparr>
      = (\<lparr>hr_status = UP, hr_cached = True, hr_timestamp = 1000, hr_cacheAge = Some 1,
          hr_httpStatus = None, hr_statusChanged = None, hr_error = None\<rparr>,
         \<lparr>hc_status = Some UP, hc_timestamp = Some 1000, hc_lastError = None\<rparr>, [])"
  using C4_one_cell_for_every_url [of
      "\<lparr>hc_status = Some UP, hc_timestamp = Some 1000, hc_lastError = None\<rparr>" UP 1000 2000
      300000 net_a_up_b_down "''https://b.test/health''" "''https://a.test/health''"]
  by (simp add: round_seconds_def)

section \<open>Freshness is decided when the cache is read\<close>

text \<open>
  C10. Neither cache stores a TTL with an entry; a call compares the entry's age with its
  own \<open>cacheTTL\<close>. For one stored test result and one stored health status at one
  moment, with an age of at least \<open>small\<close> and below \<open>large\<close>: the call passing
  \<open>large\<close> is served from the cache and calls \<open>fetch\<close> not at all; the call passing
  \<open>small\<close> runs the test again (one call of \<open>fetch\<close>, or none if the request's timeout
  is rejected), returns \<open>cached = false\<close> and stores the new time of writing. The cache key
  does not depend on the TTL.
\<close>

theorem C10_freshness_decided_by_callers_ttl:
  assumes entry: "testCache (context_key ctx) = Some e"
    and cell: "hc_status hc = Some st" "hc_timestamp hc = Some t" "t \<noteq> 0"
    and small: "small \<le> ck_now ck - ce_timestamp e" "small \<le> ck_now ck - t"
    and large: "ck_now ck - ce_timestamp e < large" "ck_now ck - t < large"
  shows "context_key (ctx\<lparr>tc_cacheTTL := large\<rparr>) = context_key (ctx\<lparr>tc_cacheTTL := small\<rparr>)
    \<and> api_execute fetch ck (ctx\<lparr>tc_cacheTTL := large\<rparr>) testCache
        = ((ce_result e)\<lparr>tr_cached := True\<rparr>, testCache, [])
    \<and> tr_cached (fst (api_execute fetch ck (ctx\<lparr>tc_cacheTTL := small\<rparr>) testCache)) = False
    \<and> snd (snd (api_execute fetch ck (ctx\<lparr>tc_cacheTTL := small\<rparr>) testCache))
        = (if timeout_accepted (tc_timeout ctx) then [build_request ctx] else [])
    \<and> map_option ce_timestamp
         (fst (snd (api_execute fetch ck (ctx\<lparr>tc_cacheTTL := small\<rparr>) testCache))
            (context_key ctx)) = Some (ck_now ck)
    \<and> hr_cached (fst (health_execute fetch (ck_now ck)
          \<lparr>hx_targetUrl = url, hx_cacheTTL = large\<rparr> hc)) = True
    \<and> snd (snd (health_execute fetch (ck_now ck)
          \<lparr>hx_targetUrl = url, hx_cacheTTL = large\<rparr> hc)) = []
    \<and> hr_cached (fst (health_execute fetch (ck_now ck)
          \<lparr>hx_targetUrl = url, hx_cacheTTL = small\<rparr> hc)) = False
    \<and> snd (snd (health_execute fetch (ck_now ck)
          \<lparr>hx_targetUrl = url, hx_cacheTTL = small\<rparr> hc)) = [health_request url]
    \<and> hc_timestamp (fst (snd (health_execute fetch (ck_now ck)
          \<lparr>hx_targetUrl = url, hx_cacheTTL = small\<rparr> hc))) = Some (ck_now ck)"
proof -
  have key: "context_key (ctx\<lparr>tc_cacheTTL := ttl\<rparr>) = context_key ctx" for ttl
    by (simp add: context_key_def)
  have hit: "cache_hit testCache (context_key (ctx\<lparr>tc_cacheTTL := large\<rparr>)) (ck_now ck)
      (tc_cacheTTL (ctx\<lparr>tc_cacheTTL := large\<rparr>)) = Some e"
    using entry large by (simp add: key cache_hit_def)
  have miss: "cache_hit testCache (context_key (ctx\<lparr>tc_cacheTTL := small\<rparr>)) (ck_now ck)
      (tc_cacheTTL (ctx\<lparr>tc_cacheTTL := small\<rparr>)) = None"
    using entry small by (simp add: key cache_hit_def)
  have req: "build_request (ctx\<lparr>tc_cacheTTL := small\<rparr>) = build_request ctx"
    by (simp add: build_request_def split: option.splits)
  have calls: "snd (try_block fetch ck (ctx\<lparr>tc_cacheTTL := small\<rparr>))
      = (if timeout_accepted (tc_timeout ctx) then [build_request ctx] else [])"
    by (simp add: try_block_def req Let_def split: fetch_outcome.splits)
  have api: "api_execute fetch ck (ctx\<lparr>tc_cacheTTL := large\<rparr>) testCache
        = ((ce_result e)\<lparr>tr_cached := True\<rparr>, testCache, [])"
      "tr_cached (fst (api_execute fetch ck (ctx\<lparr>tc_cacheTTL := small\<rparr>) testCache)) = False"
      "snd (snd (api_execute fetch ck (ctx\<lparr>tc_cacheTTL := small\<rparr>) testCache))
        = (if timeout_accepted (tc_timeout ctx) then [build_request ctx] else [])"
      "map_option ce_timestamp
         (fst (snd (api_execute fetch ck (ctx\<lparr>tc_cacheTTL := small\<rparr>) testCache))
            (context_key ctx)) = Some (ck_now ck)"
    by (simp_all add: api_execute_hit [OF hit] api_execute_miss [OF miss] key calls
        fresh_result_cached)
  have health: "hr_cached (fst (health_execute fetch (ck_now ck)
          \<lparr>hx_targetUrl = url, hx_cacheTTL = large\<rparr> hc)) = True"
      "snd (snd (health_execute fetch (ck_now ck)
          \<lparr>hx_targetUrl = url, hx_cacheTTL = large\<rparr> hc)) = []"
    using cell large by (simp_all add: health_execute_fresh)
  have stale: "hr_cached (fst (health_execute fetch (ck_now ck)
          \<lparr>hx_targetUrl = url, hx_cacheTTL = small\<rparr> hc)) = False"
      "snd (snd (health_execute fetch (ck_now ck)
          \<lparr>hx_targetUrl = url, hx_cacheTTL = small\<rparr> hc)) = [health_request url]"
      "hc_timestamp (fst (snd (health_execute fetch (ck_now ck)
          \<lparr>hx_targetUrl = url, hx_cacheTTL = small\<rparr> hc))) = Some (ck_now ck)"
    using cell small
      health_execute_stale [of hc t "\<lparr>hx_targetUrl = url, hx_cacheTTL = small\<rparr>" "ck_now ck" fetch]
    by simp_all
  show ?thesis
    using api health stale by (simp only: key simp_thms)
qed

theorem C10_freshness_decided_by_callers_ttl_witness:
  "[context_key (example_context None) \<mapsto>
       \<lparr>ce_status = FAIL, ce_timestamp = 1000, ce_responseTime = 0,
        ce_result = failure_result example_clock (example_context None) ''fetch failed''\<rparr>]
     (context_key (example_context None))
     = Some \<lparr>ce_status = FAIL, ce_timestamp = 1000, ce_responseTime = 0,
        ce_result = failure_result example_clock (example_context None) ''fetch failed''\<rparr>
   \<and> (500::int) \<le> ck_now later_clock - 1000 \<and> ck_now later_clock - 1000 < (300000::int)
   \<and> tr_cached (fst (api_execute net_ok later_clock
        ((example_context None)\<lparr>tc_cacheTTL := 300000\<rparr>)
        [context_key (example_context None) \<mapsto>
          \<lparr>ce_status = FAIL, ce_timestamp = 1000, ce_responseTime = 0,
           ce_result = failure_result example_clock (example_context None)
             ''fetch failed''\<rparr>])) = True
   \<and> snd (snd (api_execute net_ok later_clock
        ((example_context None)\<lparr>tc_cacheTTL := 300000\<rparr>)
        [context_key (example_context None) \<mapsto>
          \<lparr>ce_status = FAIL, ce_timestamp = 1000, ce_responseTime = 0,
           ce_result = failure_result example_clock (example_context None)
             ''fetch failed''\<rparr>])) = []
   \<and> tr_cached (fst (api_execute net_ok later_clock
        ((example_context None)\<lparr>tc_cacheTTL := 500\<rparr>)
        [context_key (example_context None) \<mapsto>
          \<lparr>ce_status = FAIL, ce_timestamp = 1000, ce_responseTime = 0,
           ce_result = failure_result example_clock (example_context None)
             ''fetch failed''\<rparr>])) = False
   \<and> snd (snd (api_execute net_ok later_clock
        ((example_context None)\<lparr>tc_cacheTTL := 500\<rparr>)
        [context_key (example_context None) \<mapsto>
          \<lparr>ce_status = FAIL, ce_timestamp = 1000, ce_responseTime = 0,
           ce_result = failure_result example_clock (example_context None)
             ''fetch failed''\<rparr>])) = [build_request (example_context None)]
   \<and> hr_cached (fst (health_execute net_ok (ck_now later_clock)
        \<lparr>hx_targetUrl = ''https://a.test/health'', hx_cacheTTL = 300000\<rparr>
        \<lparr>hc_status = Some DOWN, hc_timestamp = Some 1000, hc_lastError = None\<rparr>)) = True
   \<and> hr_cached (fst (health_execute net_ok (ck_now later_clock)
        \<lparr>hx_targetUrl = ''https://a.test/health'', hx_cacheTTL = 500\<rparr>
        \<lparr>hc_status = Some DOWN, hc_timestamp = Some 1000, hc_lastError = None\<rparr>)) = False"
proof -
  let ?e = "\<lparr>ce_status = FAIL, ce_timestamp = 1000, ce_responseTime = 0,
        ce_result = failure_result example_clock (example_context None) ''fetch failed''\<rparr>"
  let ?c = "[context_key (example_context None) \<mapsto> ?e]"
  let ?hc = "\<lparr>hc_status = Some DOWN, hc_timestamp = Some 1000, hc_lastError = None\<rparr>"
  have entry: "?c (context_key (example_context None)) = Some ?e"
    by simp
  have cell: "hc_status ?hc = Some DOWN" "hc_timestamp ?hc = Some 1000" "(1000::int) \<noteq> 0"
    by simp_all
  have small: "500 \<le> ck_now later_clock - ce_timestamp ?e" "500 \<le> ck_now later_clock - 1000"
    by (simp_all add: later_clock_def)
  have large: "ck_now later_clock - ce_timestamp ?e < 300000"
      "ck_now later_clock - 1000 < 300000"
    by (simp_all add: later_clock_def)
  note r = C10_freshness_decided_by_callers_ttl [where fetch = net_ok
      and url = "''https://a.test/health''" and testCache = ?c
      and ctx = "example_context None" and e = ?e and hc = ?hc and st = DOWN and t = 1000
      and small = 500 and large = 300000 and ck = later_clock,
      OF entry cell small large]
  from r have a1: "api_execute net_ok later_clock
        ((example_context None)\<lparr>tc_cacheTTL := 300000\<rparr>) ?c
      = ((ce_result ?e)\<lparr>tr_cached := True\<rparr>, ?c, [])"
    by blast
  from r have a2: "tr_cached (fst (api_execute net_ok later_clock
        ((example_context None)\<lparr>tc_cacheTTL := 500\<rparr>) ?c)) = False"
    by blast
  from r have "snd (snd (api_execute net_ok later_clock
        ((example_context None)\<lparr>tc_cacheTTL := 500\<rparr>) ?c))
      = (if timeout_accepted (tc_timeout (example_context None))
         then [build_request (example_context None)] else [])"
    by blast
  then have a3: "snd (snd (api_execute net_ok later_clock
        ((example_context None)\<lparr>tc_cacheTTL := 500\<rparr>) ?c))
      = [build_request (example_context None)]"
    using example_timeout(1) by simp
  from r have h1: "hr_cached (fst (health_execute net_ok (ck_now later_clock)
        \<lparr>hx_targetUrl = ''https://a.test/health'', hx_cacheTTL = 300000\<rparr> ?hc)) = True"
    by blast
  from r have h2: "hr_cached (fst (health_execute net_ok (ck_now later_clock)
        \<lparr>hx_targetUrl = ''https://a.test/health'', hx_cacheTTL = 500\<rparr> ?hc)) = False"
    by blast
  have b: "(500::int) \<le> ck_now later_clock - 1000 \<and> ck_now later_clock - 1000 < (300000::int)"
    by (simp add: later_clock_def)
  show ?thesis
    using entry b a2 a3 h1 h2 by (simp add: a1)
qed

section \<open>Task submissions\<close>

text \<open>A complete submission is accepted with 202, starts the background work and is
  answered by one push to the caller's webhook.\<close>

lemma complete_submission_accepted:
  "ar_status_code (fst (submit_task registry_done
      \<lparr>aq_agentId = ''apiTestAgent'', aq_body = Inr body_complete\<rparr>)) = 202
   \<and> fst (snd (submit_task registry_done
      \<lparr>aq_agentId = ''apiTestAgent'', aq_body = Inr body_complete\<rparr>)) = True
   \<and> map cp_url (snd (snd (submit_task registry_done
      \<lparr>aq_agentId = ''apiTestAgent'', aq_body = Inr body_complete\<rparr>)))
      = [Some (JStr ''https://caller.test/hook'')]"
  by (simp add: submit_task_def telexA2AHandler_def handler_try_def webhookUrl_def
      webhookToken_def mainPrompt_def param_field_def body_complete_def
      runAgentAndPushResult_def registry_done_def Let_def)

lemma handler_try_missing:
  assumes "aq_body rq = Inr body"
    and "\<not> truthy (webhookUrl body) \<or> \<not> truthy (webhookToken body)
         \<or> \<not> truthy (mainPrompt body)"
  shows "\<exists>message. handler_try rq = Inl message"
  using assms by (auto simp add: handler_try_def)

lemma body_without_config_fields:
  "webhookUrl body_without_config = None"
  "webhookToken body_without_config = None"
  "mainPrompt body_without_config = Some (JStr ''check the api'')"
  by (simp_all add: webhookUrl_def webhookToken_def mainPrompt_def param_field_def
      body_without_config_def)

text \<open>
  C8. A submission whose body lacks a truthy callback address, callback token or
  instruction text \<open>params.message.parts[0].text\<close> is answered synchronously with the
  error object (\<open>status = error\<close>, \<open>status_code = 500\<close>, a message and
  \<open>data.details\<close>); no background work is started and no callback push is attempted,
  whatever agents are registered.
\<close>

theorem C8_incomplete_submission_rejected:
  assumes body: "aq_body rq = Inr body"
    and missing: "\<not> truthy (webhookUrl body) \<or> \<not> truthy (webhookToken body)
         \<or> \<not> truthy (mainPrompt body)"
  shows "ar_status (fst (telexA2AHandler rq)) = ''error''
       \<and> ar_status_code (fst (telexA2AHandler rq)) = 500
       \<and> ar_http (fst (telexA2AHandler rq)) = 500
       \<and> ar_message (fst (telexA2AHandler rq)) = ''Internal Server Error''
       \<and> ar_details (fst (telexA2AHandler rq)) \<noteq> None
       \<and> snd (telexA2AHandler rq) = None
       \<and> submit_task registry rq = (fst (telexA2AHandler rq), False, [])"
proof -
  from handler_try_missing [OF body missing] obtain message where
    "handler_try rq = Inl message" by blast
  then show ?thesis
    by (simp add: telexA2AHandler_def submit_task_def)
qed

theorem C8_incomplete_submission_rejected_witness:
  "aq_body \<lparr>aq_agentId = ''apiTestAgent'', aq_body = Inr body_without_config\<rparr>
     = Inr body_without_config
   \<and> \<not> truthy (webhookUrl body_without_config)
   \<and> submit_task registry_done
        \<lparr>aq_agentId = ''apiTestAgent'', aq_body = Inr body_without_config\<rparr>
      = (\<lparr>ar_http = 500, ar_status = ''error'', ar_status_code = 500,
          ar_message = ''Internal Server Error'', ar_task_id = None,
          ar_details = Some ''Missing pushNotificationConfig in request''\<rparr>, False, [])"
proof -
  have body: "aq_body \<lparr>aq_agentId = ''apiTestAgent'', aq_body = Inr body_without_config\<rparr>
     = Inr body_without_config"
    by simp
  have missing: "\<not> truthy (webhookUrl body_without_config)
      \<or> \<not> truthy (webhookToken body_without_config)
      \<or> \<not> truthy (mainPrompt body_without_config)"
    by (simp add: body_without_config_fields)
  have r: "fst (telexA2AHandler
        \<lparr>aq_agentId = ''apiTestAgent'', aq_body = Inr body_without_config\<rparr>)
      = \<lparr>ar_http = 500, ar_status = ''error'', ar_status_code = 500,
          ar_message = ''Internal Server Error'', ar_task_id = None,
          ar_details = Some ''Missing pushNotificationConfig in request''\<rparr>"
    by (simp add: telexA2AHandler_def handler_try_def body_without_config_fields)
       (simp add: body_without_config_def)
  from C8_incomplete_submission_rejected [OF body missing, of registry_done] body
  show ?thesis
    by (simp add: r body_without_config_fields)
qed

end
